theory Spec2Isabelle
  imports Complex_Main "HOL-Library.Word"
begin

section \<open>Data model of \<open>AudioRenderer.cpp\<close>\<close>

text \<open>
  The renderer is a C++ object whose methods run under one lock and talk to
  collaborators (audio device, clocks, DSP stages, settings). The embedding passes
  the object's members explicitly as a record, takes every answer of a collaborator
  as an input of the call, and appends every call made to a collaborator that has
  an effect to a chronological \<open>trace\<close>.

  An \<open>assert\<close> that fails ends the call with no state left, as in a build with
  assertions enabled. The loops of \<open>Push\<close> and of the drain wait release the lock
  while they sleep; a loop is run over a finite history of what the environment does
  in each iteration, and the only act of the control thread a history contains is
  \<open>BeginFlush\<close> during a sleep. The part of an iteration that runs under the lock
  is a definition of its own (\<open>Push_locked\<close>, \<open>doBlock_locked\<close>), stated for
  any state it may start in.
\<close>

datatype State = State_Stopped | State_Paused | State_Running

type_synonym HRESULT = int
type_synonym REFERENCE_TIME = int
type_synonym wstring = "16 word list"

text \<open>
  The outcome of a COM call that fills an out-parameter: \<open>Inr v\<close> when the returned
  HRESULT satisfies \<open>SUCCEEDED\<close> (with the value written), \<open>Inl hr\<close> when it
  satisfies \<open>FAILED\<close>.
\<close>

type_synonym 'a com = "HRESULT + 'a"

fun SUCCEEDED :: "'a com \<Rightarrow> bool" where
  "SUCCEEDED (Inl hr) = False"
| "SUCCEEDED (Inr v) = True"

text \<open>The C++ exceptions that occur in this file: \<open>std::bad_alloc\<close> and a thrown HRESULT.\<close>

datatype exn = bad_alloc | thrown_HRESULT HRESULT

text \<open>
  \<open>OneSecond\<close> and \<open>MILLISECONDS_TO_100NS_UNITS\<close> come from headers outside the
  file: reference time counts units of 100 ns.
\<close>

definition OneSecond :: int where
  "OneSecond = 10000000"

definition MILLISECONDS_TO_100NS_UNITS :: "int \<Rightarrow> int" where
  "MILLISECONDS_TO_100NS_UNITS ms = ms * 10000"

definition INT64_MAX :: int where
  "INT64_MAX = 2 ^ 63 - 1"

text \<open>C++ integer division truncates towards zero.\<close>

definition tdiv :: "int \<Rightarrow> int \<Rightarrow> int" where
  "tdiv a b = sgn a * sgn b * (\<bar>a\<bar> div \<bar>b\<bar>)"

text \<open>The cast \<open>(int32_t) x\<close> of a 64-bit value keeps the low 32 bits, read as signed.\<close>

definition to_int32 :: "int \<Rightarrow> int" where
  "to_int32 x = sint (word_of_int x :: 32 word)"

record WAVEFORMATEX =
  nSamplesPerSec :: "32 word"
  nChannels :: "16 word"
  wBitsPerSample :: "16 word"

text \<open>
  Modelled from the spec: the struct \<open>AudioDevice\<close> is declared outside the file.
  The spec's DeviceSession holds the negotiated output format, an exclusivity flag, a
  bitstream flag, a settings serial number and the device identity (name and default
  flag); the fields are named as the file reads them (\<open>default'\<close> is the member
  \<open>default\<close>). Its COM interfaces
  (\<open>audioClient\<close>, \<open>audioRenderClient\<close>, \<open>audioClock\<close>) are collaborators: their
  answers are inputs and their effects go to the trace.
\<close>

record AudioDevice =
  settingsSerial :: "32 word"
  exclusive :: bool
  bitstream :: bool
  friendlyName :: wstring
  default' :: bool
  waveFormat :: WAVEFORMATEX

text \<open>
  Modelled from the spec: the class \<open>DspChunk\<close> is declared outside the file. The
  spec's AudioChunk is a buffer of interleaved frames with a frame count, empty when
  it has zero frames. A frame is \<open>frameSize\<close> bytes.
\<close>

type_synonym frame = "8 word list"

record DspChunk =
  frameSize :: "32 word"
  frames :: "frame list"

definition DspChunk_empty :: DspChunk where
  "DspChunk_empty = \<lparr>frameSize = 0, frames = []\<rparr>"

definition IsEmpty :: "DspChunk \<Rightarrow> bool" where
  "IsEmpty chunk = (frames chunk = [])"

definition GetFrameSize :: "DspChunk \<Rightarrow> 32 word" where
  "GetFrameSize chunk = frameSize chunk"

definition GetFrameCount :: "DspChunk \<Rightarrow> nat" where
  "GetFrameCount chunk = length (frames chunk)"

text \<open>
  The object a reference clock pointer points to: the renderer's own clock or another
  object. A pointer is a \<open>clock_ref option\<close>, \<open>None\<close> for the null pointer.
\<close>

datatype clock_ref = MyClock | OtherClock nat

text \<open>Calls to collaborators that change something outside the object.\<close>

datatype effect =
    UnslaveClockFromAudio
  | SlaveClockToAudio REFERENCE_TIME
  | OffsetSlavedClock REFERENCE_TIME
  | AudioClient_Start
  | AudioClient_Stop
  | AudioClient_Reset
  | RenderClient_Write "frame list"
  | DspRate_Adjust REFERENCE_TIME
  | Dsp_Initialize
  | DeviceManager_CreateDevice
  | DeviceManager_ReleaseDevice
  | TimingsCorrection_SetFormat "WAVEFORMATEX option"
  | TimingsCorrection_NewSegment real
  | Flush_Wait int

text \<open>
  The members of \<open>AudioRenderer\<close>. The two events \<open>m_flush\<close> and \<open>m_bufferFilled\<close>
  are their signalled state. \<open>m_pushedFrames\<close> is a frame counter declared outside
  the file; it is kept unbounded.
\<close>

record AudioRenderer =
  m_state :: State
  m_device :: "AudioDevice option"
  m_inputFormat :: "WAVEFORMATEX option"
  m_graphClock :: "clock_ref option"
  m_externalClock :: bool
  m_flush :: bool
  m_bufferFilled :: bool
  m_pushedFrames :: nat
  m_startTime :: REFERENCE_TIME
  m_startClockOffset :: REFERENCE_TIME
  m_rate :: real
  m_correctedWithRateDsp :: REFERENCE_TIME
  trace :: "effect list"

definition emit :: "effect \<Rightarrow> AudioRenderer \<Rightarrow> AudioRenderer" where
  "emit x s = s\<lparr>trace := trace s @ [x]\<rparr>"

text \<open>
  How a call ends: it returns a value, an exception leaves it, an \<open>assert\<close> fails
  (the process aborts: no state is left), or the supplied history of the environment
  ends while the call is still in a loop (\<open>Pending\<close>). Methods that can only return
  or fail an assertion give \<open>AudioRenderer option\<close>, \<open>None\<close> for the failed assertion.
\<close>

datatype 'a outcome =
    Returned 'a AudioRenderer
  | Thrown exn AudioRenderer
  | AssertionFailed
  | Pending AudioRenderer

section \<open>Device lifecycle\<close>

definition ClearDevice :: "AudioRenderer \<Rightarrow> AudioRenderer" where
  "ClearDevice s =
     (let s1 = (if m_device s \<noteq> None
                then (emit AudioClient_Stop (emit UnslaveClockFromAudio s))\<lparr>m_bufferFilled := False\<rparr>
                else s);
          s2 = s1\<lparr>m_device := None\<rparr>;
          s3 = emit DeviceManager_ReleaseDevice s2
      in s3\<lparr>m_pushedFrames := 0\<rparr>)"

definition StartDevice :: "AudioRenderer \<Rightarrow> AudioRenderer option" where
  "StartDevice s =
     (if m_state s \<noteq> State_Running then None
      else if m_device s \<noteq> None
      then Some (emit AudioClient_Start
                  ((emit (SlaveClockToAudio (m_startTime s + m_startClockOffset s)) s)
                     \<lparr>m_startClockOffset := 0\<rparr>))
      else Some s)"

definition InitializeProcessors :: "AudioRenderer \<Rightarrow> AudioRenderer option" where
  "InitializeProcessors s =
     (if m_inputFormat s = None then None
      else case m_device s of
        None \<Rightarrow> None
      | Some d \<Rightarrow>
          (let s1 = s\<lparr>m_correctedWithRateDsp := 0\<rparr>
           in if bitstream d then Some s1 else Some (emit Dsp_Initialize s1)))"

definition CreateDevice :: "AudioDevice option \<Rightarrow> REFERENCE_TIME \<Rightarrow> AudioRenderer \<Rightarrow> AudioRenderer option" where
  "CreateDevice created lastSampleEnd s =
     (if m_device s \<noteq> None then None
      else if m_inputFormat s = None then None
      else
        (let s1 = (emit DeviceManager_CreateDevice s)\<lparr>m_device := created\<rparr>
         in if m_device s1 \<noteq> None
            then (case InitializeProcessors s1 of
                    None \<Rightarrow> None
                  | Some s2 \<Rightarrow>
                      (let s3 = s2\<lparr>m_startClockOffset := lastSampleEnd\<rparr>
                       in if m_state s3 = State_Running then StartDevice s3 else Some s3))
            else Some s1))"

section \<open>Flushing\<close>

definition BeginFlush :: "AudioRenderer \<Rightarrow> AudioRenderer" where
  "BeginFlush s = s\<lparr>m_flush := True\<rparr>"

definition EndFlush :: "AudioRenderer \<Rightarrow> AudioRenderer option" where
  "EndFlush s =
     (if m_state s = State_Running then None
      else
        (let s1 = (if m_device s \<noteq> None
                   then (emit AudioClient_Reset s)\<lparr>m_bufferFilled := False\<rparr>
                   else s);
             s2 = s1\<lparr>m_flush := False\<rparr>
         in Some (s2\<lparr>m_pushedFrames := 0\<rparr>)))"

section \<open>Settings and clock selection\<close>

text \<open>
  What \<open>m_settings\<close> answers during one call: the serial number, and the result of
  \<open>GetOuputDevice\<close> (the device name pointer, \<open>None\<close> for a null pointer, and the
  \<open>BOOL\<close> exclusive flag).
\<close>

record settings_obs =
  GetSerial :: "32 word"
  GetOuputDevice :: "(wstring option \<times> int) com"

text \<open>
  The characters of a C string: those before the first terminator. A null pointer and
  a pointer to a terminator both fail the test \<open>pDeviceName && *pDeviceName\<close>; the
  model gives both the empty name.
\<close>

definition c_str :: "wstring \<Rightarrow> wstring" where
  "c_str w = takeWhile (\<lambda>c. c \<noteq> 0) w"

definition CheckDeviceSettings :: "settings_obs \<Rightarrow> AudioRenderer \<Rightarrow> AudioRenderer option" where
  "CheckDeviceSettings st s =
     (let serial = GetSerial st
      in case m_device s of
        None \<Rightarrow> Some s
      | Some d \<Rightarrow>
          if settingsSerial d \<noteq> serial
          then (case GetOuputDevice st of
                  Inl hr \<Rightarrow> Some s
                | Inr (pDeviceName, exclusive_flag) \<Rightarrow>
                    (let name = (case pDeviceName of None \<Rightarrow> [] | Some n \<Rightarrow> c_str n)
                     in if exclusive d \<noteq> (exclusive_flag \<noteq> 0)
                           \<or> (name \<noteq> [] \<and> name \<noteq> c_str (friendlyName d))
                           \<or> (name = [] \<and> \<not> default' d)
                        then (let s1 = ClearDevice s
                              in if m_device s1 \<noteq> None then None else Some s1)
                        else Some (s\<lparr>m_device := Some (d\<lparr>settingsSerial := serial\<rparr>)\<rparr>)))
          else Some s)"

text \<open>
  \<open>SetClock\<close>: \<open>qi\<close> is the result of \<open>QueryInterface\<close> on the renderer's own clock,
  \<open>pClock\<close> the pointer passed in. \<open>QueryInterface\<close> stores the renderer's own clock
  in \<open>m_graphClock\<close> when it succeeds and the null pointer when it fails, before
  \<open>ThrowIfFailed\<close> throws.
\<close>

definition SetClock :: "unit com \<Rightarrow> clock_ref option \<Rightarrow> AudioRenderer \<Rightarrow> unit outcome" where
  "SetClock qi pClock s =
     (case qi of
        Inl hr \<Rightarrow> Thrown (thrown_HRESULT hr) (s\<lparr>m_graphClock := None\<rparr>)
      | Inr u \<Rightarrow>
          (let s1 = s\<lparr>m_graphClock := Some MyClock, m_externalClock := False\<rparr>
           in case pClock of
             None \<Rightarrow> Returned () s1
           | Some c \<Rightarrow>
               if m_graphClock s1 \<noteq> Some c
               then (let s2 = s1\<lparr>m_graphClock := Some c\<rparr>
                     in if \<not> m_externalClock s2
                        then Returned () (ClearDevice (s2\<lparr>m_externalClock := True\<rparr>))
                        else Returned () s2)
               else Returned () s1))"

definition OnExternalClock :: "AudioRenderer \<Rightarrow> bool" where
  "OnExternalClock s = m_externalClock s"

section \<open>State machine and format\<close>

definition SetFormat :: "WAVEFORMATEX option \<Rightarrow> AudioRenderer \<Rightarrow> AudioRenderer" where
  "SetFormat inputFormat s =
     ClearDevice (emit (TimingsCorrection_SetFormat inputFormat) (s\<lparr>m_inputFormat := inputFormat\<rparr>))"

text \<open>
  \<open>NewSegment\<close>: \<open>exact\<close> says whether \<open>(double)(float)rate == rate\<close> holds for the
  argument.
\<close>

definition NewSegment :: "real \<Rightarrow> bool \<Rightarrow> AudioRenderer \<Rightarrow> AudioRenderer option" where
  "NewSegment rate exact s =
     (if \<not> exact then None
      else
        (let s1 = s\<lparr>m_startClockOffset := 0, m_rate := rate\<rparr>;
             s2 = emit (TimingsCorrection_NewSegment (m_rate s1)) s1
         in if m_inputFormat s2 = None then None
            else if m_device s2 \<noteq> None then InitializeProcessors s2
            else Some s2))"

definition Play :: "REFERENCE_TIME \<Rightarrow> AudioRenderer \<Rightarrow> AudioRenderer option" where
  "Play startTime s =
     (if m_state s = State_Running then None
      else StartDevice (s\<lparr>m_state := State_Running, m_startTime := startTime\<rparr>))"

definition Pause :: "AudioRenderer \<Rightarrow> AudioRenderer" where
  "Pause s =
     (let s1 = s\<lparr>m_state := State_Paused\<rparr>
      in if m_device s1 \<noteq> None
         then emit AudioClient_Stop (emit UnslaveClockFromAudio s1)
         else s1)"

definition Stop :: "AudioRenderer \<Rightarrow> AudioRenderer" where
  "Stop s = ClearDevice (s\<lparr>m_state := State_Stopped\<rparr>)"

definition GetInputFormat :: "AudioRenderer \<Rightarrow> WAVEFORMATEX option" where
  "GetInputFormat s = m_inputFormat s"

definition GetAudioDevice :: "AudioRenderer \<Rightarrow> AudioDevice option" where
  "GetAudioDevice s = m_device s"

section \<open>Push\<close>

text \<open>
  Waiting on the manual-reset event \<open>m_flush\<close> with a timeout: the wait reports the
  event signalled when it was signalled already or \<open>BeginFlush\<close> runs on the control
  thread before the timeout (\<open>raised\<close>). The report is \<open>m_flush\<close> of the state after.
\<close>

definition flush_Wait :: "int \<Rightarrow> bool \<Rightarrow> AudioRenderer \<Rightarrow> AudioRenderer" where
  "flush_Wait ms raised s = (emit (Flush_Wait ms) s)\<lparr>m_flush := (m_flush s \<or> raised)\<rparr>"

text \<open>
  What the environment does during one iteration of the loop of \<open>Push\<close>: whether a
  flush begins during the wait, what the device and the graph clock answer, and the
  timings correction's last sample end.
\<close>

record push_ev =
  pe_beginFlush :: bool
  pe_GetBufferSize :: "32 word com"
  pe_GetCurrentPadding :: "32 word com"
  pe_GetBuffer :: "unit com"
  pe_ReleaseBuffer :: "unit com"
  pe_GetTime :: "REFERENCE_TIME com"
  pe_GetLastSampleEnd :: REFERENCE_TIME

datatype push_step =
    Step_continue nat AudioRenderer
  | Step_break AudioRenderer
  | Step_assert

text \<open>The end of the loop body, reached with no device (the statements after the \<open>if\<close>).\<close>

definition Push_no_device :: "nat \<Rightarrow> push_ev \<Rightarrow> AudioRenderer \<Rightarrow> push_step" where
  "Push_no_device doneFrames e s =
     (if m_device s \<noteq> None then Step_assert
      else
        (let s1 = s\<lparr>m_bufferFilled := True\<rparr>
         in if m_state s1 = State_Running
               \<and> (case pe_GetTime e of
                     Inl hr \<Rightarrow> False
                   | Inr graphTime \<Rightarrow>
                       graphTime + MILLISECONDS_TO_100NS_UNITS 20 > m_startTime s1 + pe_GetLastSampleEnd e)
            then Step_break s1
            else Step_continue doneFrames s1))"

text \<open>The part of the loop body that runs under the lock.\<close>

definition Push_locked :: "DspChunk \<Rightarrow> nat \<Rightarrow> push_ev \<Rightarrow> AudioRenderer \<Rightarrow> push_step" where
  "Push_locked chunk doneFrames e s =
     (if m_state s = State_Stopped then Step_assert
      else case m_device s of
        None \<Rightarrow> Push_no_device doneFrames e s
      | Some d \<Rightarrow>
          (case pe_GetBufferSize e of
             Inl hr \<Rightarrow> Push_no_device doneFrames e (ClearDevice s)
           | Inr bufferFrames \<Rightarrow>
          (case pe_GetCurrentPadding e of
             Inl hr \<Rightarrow> Push_no_device doneFrames e (ClearDevice s)
           | Inr bufferPadding \<Rightarrow>
          (let doFrames = min (bufferFrames - bufferPadding)
                              (word_of_nat (GetFrameCount chunk - doneFrames) :: 32 word)
           in if doFrames = 0 then Step_continue doneFrames s
              else
          (case pe_GetBuffer e of
             Inl hr \<Rightarrow> Push_no_device doneFrames e (ClearDevice s)
           | Inr u \<Rightarrow>
              if unat (GetFrameSize chunk)
                   \<noteq> unat (wBitsPerSample (waveFormat d)) div 8 * unat (nChannels (waveFormat d))
              then Step_assert
              else
          (case pe_ReleaseBuffer e of
             Inl hr \<Rightarrow> Push_no_device doneFrames e (ClearDevice s)
           | Inr u' \<Rightarrow>
              (let s1 = emit (RenderClient_Write
                                (take (unat doFrames) (drop doneFrames (frames chunk)))) s;
                   s2 = s1\<lparr>m_bufferFilled := (bufferPadding + doFrames = bufferFrames)\<rparr>
               in Step_continue (doneFrames + unat doFrames)
                    (s2\<lparr>m_pushedFrames := m_pushedFrames s2 + unat doFrames\<rparr>))))))))"

fun Push_loop :: "DspChunk \<Rightarrow> nat \<Rightarrow> bool \<Rightarrow> push_ev list \<Rightarrow> AudioRenderer \<Rightarrow> bool outcome" where
  "Push_loop chunk doneFrames firstIteration [] s =
     (if doneFrames < GetFrameCount chunk then Pending s else Returned True s)"
| "Push_loop chunk doneFrames firstIteration (e # evs) s =
     (if \<not> doneFrames < GetFrameCount chunk then Returned True s
      else
        (let s1 = (if \<not> firstIteration then flush_Wait 50 (pe_beginFlush e) s else s)
         in if \<not> firstIteration \<and> m_flush s1 then Returned False s1
            else case Push_locked chunk doneFrames e s1 of
              Step_assert \<Rightarrow> AssertionFailed
            | Step_break s2 \<Rightarrow> Returned True s2
            | Step_continue doneFrames' s2 \<Rightarrow> Push_loop chunk doneFrames' False evs s2))"

definition Push :: "DspChunk \<Rightarrow> push_ev list \<Rightarrow> AudioRenderer \<Rightarrow> bool outcome" where
  "Push chunk evs s =
     (if IsEmpty chunk then Returned True s
      else Push_loop chunk 0 True evs s)"

section \<open>Finish and the drain wait\<close>

text \<open>
  What the environment does during one iteration of the loop of \<open>doBlock\<close>: the
  answers of the device clock, and whether a flush begins during the wait.
\<close>

record block_ev =
  be_GetFrequency :: "64 word com"
  be_GetPosition :: "64 word com"
  be_beginFlush :: bool

datatype block_step =
    Block_return bool AudioRenderer
  | Block_wait int AudioRenderer

text \<open>
  One iteration of \<open>for (;;)\<close> up to the wait. \<open>llMulDiv\<close> is a library function
  outside the repository and is a parameter. The variable \<open>actual\<close> is declared in
  the loop body with the initialiser \<open>INT64_MAX\<close>, so \<open>previous\<close> is copied from a
  fresh variable in every iteration.
\<close>

definition doBlock_locked ::
  "(int \<Rightarrow> int \<Rightarrow> int \<Rightarrow> int \<Rightarrow> int) \<Rightarrow> block_ev \<Rightarrow> AudioRenderer \<Rightarrow> block_step" where
  "doBlock_locked llMulDiv e s =
     (let actual0 = INT64_MAX
      in case m_device s of
        None \<Rightarrow> Block_return True s
      | Some d \<Rightarrow>
          (case be_GetFrequency e of
             Inl hr \<Rightarrow> Block_return True (ClearDevice s)
           | Inr deviceClockFrequency \<Rightarrow>
          (case be_GetPosition e of
             Inl hr \<Rightarrow> Block_return True (ClearDevice s)
           | Inr deviceClockPosition \<Rightarrow>
              (let previous = actual0;
                   actual = llMulDiv (sint deviceClockPosition) OneSecond (sint deviceClockFrequency) 0;
                   target = llMulDiv (int (m_pushedFrames s)) OneSecond
                              (uint (nSamplesPerSec (waveFormat d))) 0
               in if actual = target then Block_return True s
                  else if actual = previous \<and> m_state s = State_Running then Block_return True s
                  else Block_wait (max 1 (to_int32 (tdiv ((target - actual) * 1000) OneSecond))) s))))"

fun doBlock_loop ::
  "(int \<Rightarrow> int \<Rightarrow> int \<Rightarrow> int \<Rightarrow> int) \<Rightarrow> block_ev list \<Rightarrow> AudioRenderer \<Rightarrow> bool outcome" where
  "doBlock_loop llMulDiv [] s = (if m_device s = None then Returned True s else Pending s)"
| "doBlock_loop llMulDiv (e # evs) s =
     (case doBlock_locked llMulDiv e s of
        Block_return b s1 \<Rightarrow> Returned b s1
      | Block_wait ms s1 \<Rightarrow>
          (let s2 = flush_Wait ms (be_beginFlush e) s1
           in if m_flush s2 then Returned False s2
              else doBlock_loop llMulDiv evs s2))"

definition doBlock ::
  "(int \<Rightarrow> int \<Rightarrow> int \<Rightarrow> int \<Rightarrow> int) \<Rightarrow> block_ev list \<Rightarrow> AudioRenderer \<Rightarrow> bool outcome" where
  "doBlock llMulDiv evs s = doBlock_loop llMulDiv evs (emit UnslaveClockFromAudio s)"

text \<open>
  The environment of one call of \<open>Finish\<close>: what draining the DSP stages and
  converting to the device format leaves in the chunk (or the exception thrown), and
  the histories for \<open>Push\<close> and for the drain wait.
\<close>

record finish_env =
  fe_dspFinish :: "exn + DspChunk"
  fe_pushEvents :: "push_ev list"
  fe_blockEvents :: "block_ev list"

text \<open>The returned expression \<open>Push(chunk) && (!blockUntilEnd || doBlock())\<close>.\<close>

definition Finish_return ::
  "(int \<Rightarrow> int \<Rightarrow> int \<Rightarrow> int \<Rightarrow> int) \<Rightarrow> bool \<Rightarrow> DspChunk \<Rightarrow> finish_env \<Rightarrow> AudioRenderer \<Rightarrow> bool outcome" where
  "Finish_return llMulDiv blockUntilEnd chunk e s =
     (case Push chunk (fe_pushEvents e) s of
        Returned pushed s1 \<Rightarrow>
          if pushed
          then (if \<not> blockUntilEnd then Returned True s1
                else doBlock llMulDiv (fe_blockEvents e) s1)
          else Returned False s1
      | Thrown ex s1 \<Rightarrow> Thrown ex s1
      | AssertionFailed \<Rightarrow> AssertionFailed
      | Pending s1 \<Rightarrow> Pending s1)"

definition Finish ::
  "(int \<Rightarrow> int \<Rightarrow> int \<Rightarrow> int \<Rightarrow> int) \<Rightarrow> bool \<Rightarrow> finish_env \<Rightarrow> AudioRenderer \<Rightarrow> bool outcome" where
  "Finish llMulDiv blockUntilEnd0 e s =
     (if m_state s = State_Stopped then AssertionFailed
      else
        (let blockUntilEnd = (if m_device s = None then False else blockUntilEnd0)
         in case (case m_device s of
                    None \<Rightarrow> Inr DspChunk_empty
                  | Some d \<Rightarrow> if \<not> bitstream d then fe_dspFinish e else Inr DspChunk_empty) of
              Inr chunk \<Rightarrow> Finish_return llMulDiv blockUntilEnd chunk e s
            | Inl bad_alloc \<Rightarrow>
                (if \<not> IsEmpty DspChunk_empty then AssertionFailed
                 else Finish_return llMulDiv blockUntilEnd DspChunk_empty e s)
            | Inl (thrown_HRESULT hr) \<Rightarrow> Thrown (thrown_HRESULT hr) s))"

section \<open>Enqueue\<close>

text \<open>
  The environment of one call of \<open>Enqueue\<close>, in the order the call consults it: the
  settings, the device manager's \<open>CreateDevice\<close>, the timings correction, the clocks,
  the rate stage's \<open>Active\<close>, the DSP chain with the conversion to the device format
  (a function of the chunk it is given), and the history for \<open>Push\<close>. An exception
  can leave \<open>ProcessSample\<close> and the DSP chain; the other collaborators return.
\<close>

record enqueue_env =
  ee_settings :: settings_obs
  ee_CreateDevice :: "AudioDevice option"
  ee_GetLastSampleEnd :: REFERENCE_TIME
  ee_ProcessSample :: "exn + DspChunk"
  ee_GetTimingsError :: REFERENCE_TIME
  ee_GetSlavedClockOffset :: REFERENCE_TIME
  ee_dspRateActive :: bool
  ee_GetAudioClockStartTime :: "REFERENCE_TIME com"
  ee_GetAudioClockTime :: "REFERENCE_TIME com"
  ee_GetTime :: "REFERENCE_TIME com"
  ee_dspProcess :: "DspChunk \<Rightarrow> exn + DspChunk"
  ee_pushEvents :: "push_ev list"

text \<open>
  The body of \<open>if (m_externalClock && !m_device->bitstream)\<close> after its assertion:
  the comparison of the graph clock with the audio clock.
\<close>

definition rate_correction :: "enqueue_env \<Rightarrow> AudioRenderer \<Rightarrow> AudioRenderer" where
  "rate_correction e s =
     (case ee_GetAudioClockStartTime e of
        Inl hr \<Rightarrow> s
      | Inr myStartTime \<Rightarrow>
     (case ee_GetAudioClockTime e of
        Inl hr \<Rightarrow> s
      | Inr myTime \<Rightarrow>
     (case ee_GetTime e of
        Inl hr \<Rightarrow> s
      | Inr graphTime \<Rightarrow>
          if myTime > myStartTime
          then (let offset = graphTime - myTime - m_correctedWithRateDsp s
                in if \<bar>offset\<bar> > MILLISECONDS_TO_100NS_UNITS 2
                   then (let s1 = emit (DspRate_Adjust offset) s
                         in s1\<lparr>m_correctedWithRateDsp := m_correctedWithRateDsp s1 + offset\<rparr>)
                   else s)
          else s)))"

text \<open>The body of \<open>if (m_device && m_state == State_Running)\<close>, for the device \<open>d\<close>.\<close>

definition clock_correction :: "AudioDevice \<Rightarrow> enqueue_env \<Rightarrow> AudioRenderer \<Rightarrow> AudioRenderer option" where
  "clock_correction d e s =
     (let offset = ee_GetTimingsError e - ee_GetSlavedClockOffset e;
          s1 = (if \<bar>offset\<bar> > 1000 then emit (OffsetSlavedClock offset) s else s)
      in if m_externalClock s1 \<and> \<not> bitstream d
         then (if \<not> ee_dspRateActive e then None else Some (rate_correction e s1))
         else Some s1)"

text \<open>The \<open>try\<close> block of \<open>Enqueue\<close>: it ends with the chunk, or an exception leaves it.\<close>

definition Enqueue_try :: "enqueue_env \<Rightarrow> AudioRenderer \<Rightarrow> DspChunk outcome" where
  "Enqueue_try e s =
     (case CheckDeviceSettings (ee_settings e) s of
        None \<Rightarrow> AssertionFailed
      | Some s1 \<Rightarrow>
     (case (if m_device s1 = None
            then CreateDevice (ee_CreateDevice e) (ee_GetLastSampleEnd e) s1
            else Some s1) of
        None \<Rightarrow> AssertionFailed
      | Some s2 \<Rightarrow>
     (case ee_ProcessSample e of
        Inl ex \<Rightarrow> Thrown ex s2
      | Inr chunk \<Rightarrow>
     (case (case m_device s2 of
              None \<Rightarrow> Some s2
            | Some d \<Rightarrow> if m_state s2 = State_Running then clock_correction d e s2 else Some s2) of
        None \<Rightarrow> AssertionFailed
      | Some s3 \<Rightarrow>
     (case m_device s3 of
        None \<Rightarrow> Returned chunk s3
      | Some d \<Rightarrow>
          if \<not> bitstream d
          then (case ee_dspProcess e chunk of
                  Inl ex \<Rightarrow> Thrown ex s3
                | Inr chunk' \<Rightarrow> Returned chunk' s3)
          else Returned chunk s3)))))"

definition Enqueue :: "enqueue_env \<Rightarrow> AudioRenderer \<Rightarrow> bool outcome" where
  "Enqueue e s =
     (if m_inputFormat s = None then AssertionFailed
      else if m_state s = State_Stopped then AssertionFailed
      else case Enqueue_try e s of
        Returned chunk s1 \<Rightarrow> Push chunk (ee_pushEvents e) s1
      | Thrown bad_alloc s1 \<Rightarrow> Push DspChunk_empty (ee_pushEvents e) (ClearDevice s1)
      | Thrown (thrown_HRESULT hr) s1 \<Rightarrow> Thrown (thrown_HRESULT hr) s1
      | AssertionFailed \<Rightarrow> AssertionFailed
      | Pending s1 \<Rightarrow> Pending s1)"

section \<open>The calls of the class\<close>

datatype call =
    Call_SetClock "unit com" "clock_ref option"
  | Call_Enqueue enqueue_env
  | Call_Finish bool finish_env
  | Call_BeginFlush
  | Call_EndFlush
  | Call_SetFormat "WAVEFORMATEX option"
  | Call_NewSegment real bool
  | Call_Play REFERENCE_TIME
  | Call_Pause
  | Call_Stop
  | Call_CheckDeviceSettings settings_obs
  | Call_StartDevice
  | Call_CreateDevice "AudioDevice option" REFERENCE_TIME
  | Call_ClearDevice
  | Call_InitializeProcessors
  | Call_Push DspChunk "push_ev list"

text \<open>The object a call leaves behind, \<open>None\<close> after a failed assertion.\<close>

fun state_after :: "'a outcome \<Rightarrow> AudioRenderer option" where
  "state_after (Returned r s) = Some s"
| "state_after (Thrown ex s) = Some s"
| "state_after AssertionFailed = None"
| "state_after (Pending s) = Some s"

fun exec :: "(int \<Rightarrow> int \<Rightarrow> int \<Rightarrow> int \<Rightarrow> int) \<Rightarrow> call \<Rightarrow> AudioRenderer \<Rightarrow> AudioRenderer option" where
  "exec llMulDiv (Call_SetClock qi pClock) s = state_after (SetClock qi pClock s)"
| "exec llMulDiv (Call_Enqueue e) s = state_after (Enqueue e s)"
| "exec llMulDiv (Call_Finish blockUntilEnd e) s = state_after (Finish llMulDiv blockUntilEnd e s)"
| "exec llMulDiv Call_BeginFlush s = Some (BeginFlush s)"
| "exec llMulDiv Call_EndFlush s = EndFlush s"
| "exec llMulDiv (Call_SetFormat inputFormat) s = Some (SetFormat inputFormat s)"
| "exec llMulDiv (Call_NewSegment rate exact) s = NewSegment rate exact s"
| "exec llMulDiv (Call_Play startTime) s = Play startTime s"
| "exec llMulDiv Call_Pause s = Some (Pause s)"
| "exec llMulDiv Call_Stop s = Some (Stop s)"
| "exec llMulDiv (Call_CheckDeviceSettings st) s = CheckDeviceSettings st s"
| "exec llMulDiv Call_StartDevice s = StartDevice s"
| "exec llMulDiv (Call_CreateDevice created lastSampleEnd) s = CreateDevice created lastSampleEnd s"
| "exec llMulDiv Call_ClearDevice s = Some (ClearDevice s)"
| "exec llMulDiv Call_InitializeProcessors s = InitializeProcessors s"
| "exec llMulDiv (Call_Push chunk evs) s = state_after (Push chunk evs s)"


section \<open>Notions used in the properties\<close>

text \<open>No device session, no pushed frames.\<close>

definition pushed_inv :: "AudioRenderer \<Rightarrow> bool" where
  "pushed_inv s = (m_device s = None \<longrightarrow> m_pushedFrames s = 0)"

text \<open>The frames written to the device, in order.\<close>

fun written :: "effect list \<Rightarrow> frame list" where
  "written [] = []"
| "written (RenderClient_Write fs # tr) = fs @ written tr"
| "written (x # tr) = written tr"

text \<open>An iteration of \<open>Push\<close> in which no call to the device fails.\<close>

definition no_hardware_error :: "push_ev \<Rightarrow> bool" where
  "no_hardware_error e =
     (SUCCEEDED (pe_GetBufferSize e) \<and> SUCCEEDED (pe_GetCurrentPadding e)
      \<and> SUCCEEDED (pe_GetBuffer e) \<and> SUCCEEDED (pe_ReleaseBuffer e))"

text \<open>
  Compatibility of a settings change with the session, in the spec's words: the same
  exclusivity flag and the same device identity (an empty or null name selects the
  default device).
\<close>

definition same_identity :: "AudioDevice \<Rightarrow> wstring option \<Rightarrow> bool" where
  "same_identity d pDeviceName =
     (case pDeviceName of
        None \<Rightarrow> default' d
      | Some n \<Rightarrow> if c_str n = [] then default' d else c_str n = c_str (friendlyName d))"

definition compatible :: "AudioDevice \<Rightarrow> wstring option \<Rightarrow> int \<Rightarrow> bool" where
  "compatible d pDeviceName exclusive_flag =
     (exclusive d = (exclusive_flag \<noteq> 0) \<and> same_identity d pDeviceName)"

text \<open>The offsets fed to the rate stage, in order.\<close>

fun adjustments :: "effect list \<Rightarrow> REFERENCE_TIME list" where
  "adjustments [] = []"
| "adjustments (DspRate_Adjust offset # tr) = offset # adjustments tr"
| "adjustments (x # tr) = adjustments tr"

text \<open>
  The difference between the graph clock's time and the audio clock's time, less the
  correction already accumulated. It is available when the three clock queries succeed
  and the audio clock is past its start time.
\<close>

definition external_offset :: "enqueue_env \<Rightarrow> AudioRenderer \<Rightarrow> REFERENCE_TIME option" where
  "external_offset e s =
     (case ee_GetAudioClockStartTime e of
        Inl hr \<Rightarrow> None
      | Inr myStartTime \<Rightarrow>
     (case ee_GetAudioClockTime e of
        Inl hr \<Rightarrow> None
      | Inr myTime \<Rightarrow>
     (case ee_GetTime e of
        Inl hr \<Rightarrow> None
      | Inr graphTime \<Rightarrow>
          if myTime > myStartTime
          then Some (graphTime - myTime - m_correctedWithRateDsp s)
          else None)))"

text \<open>
  The offset an \<open>Enqueue\<close> owes the rate stage: the difference above, when it is
  available and its absolute value exceeds 2 ms.
\<close>

definition due_adjustment :: "enqueue_env \<Rightarrow> AudioRenderer \<Rightarrow> REFERENCE_TIME option" where
  "due_adjustment e s =
     (case external_offset e s of
        None \<Rightarrow> None
      | Some offset \<Rightarrow>
          if \<bar>offset\<bar> > MILLISECONDS_TO_100NS_UNITS 2 then Some offset else None)"

text \<open>
  What the object \<open>s'\<close> shows when, since \<open>s\<close>, exactly the offset \<open>due\<close> (or nothing)
  was fed to the rate stage and added to the correction accumulated in \<open>s2\<close>.
\<close>

definition rate_stage_fed :: "REFERENCE_TIME option \<Rightarrow> AudioRenderer \<Rightarrow> AudioRenderer \<Rightarrow> AudioRenderer \<Rightarrow> bool" where
  "rate_stage_fed due s s2 s' =
     (case due of
        None \<Rightarrow> adjustments (trace s') = adjustments (trace s)
                  \<and> m_correctedWithRateDsp s' = m_correctedWithRateDsp s2
      | Some offset \<Rightarrow> adjustments (trace s') = adjustments (trace s) @ [offset]
                  \<and> m_correctedWithRateDsp s' = m_correctedWithRateDsp s2 + offset)"

text \<open>Nothing was fed to the rate stage between two objects.\<close>

definition rate_state_kept :: "AudioRenderer \<Rightarrow> AudioRenderer \<Rightarrow> bool" where
  "rate_state_kept s s' =
     (adjustments (trace s') = adjustments (trace s)
      \<and> m_correctedWithRateDsp s' = m_correctedWithRateDsp s)"

section \<open>Concrete inputs\<close>

definition pcm_48k_stereo_16 :: WAVEFORMATEX where
  "pcm_48k_stereo_16 = \<lparr>nSamplesPerSec = 48000, nChannels = 2, wBitsPerSample = 16\<rparr>"

definition speakers :: AudioDevice where
  "speakers = \<lparr>settingsSerial = 1, exclusive = False, bitstream = False,
     friendlyName = [83, 112, 107], default' = True, waveFormat = pcm_48k_stereo_16\<rparr>"

text \<open>A renderer with a format set, stopped, with no device session.\<close>

definition stopped_renderer :: AudioRenderer where
  "stopped_renderer = \<lparr>m_state = State_Stopped, m_device = None,
     m_inputFormat = Some pcm_48k_stereo_16, m_graphClock = Some MyClock, m_externalClock = False,
     m_flush = False, m_bufferFilled = False, m_pushedFrames = 0, m_startTime = 0,
     m_startClockOffset = 0, m_rate = 1, m_correctedWithRateDsp = 0, trace = []\<rparr>"

text \<open>The same renderer running, and paused, on the device \<open>speakers\<close>.\<close>

definition running_renderer :: AudioRenderer where
  "running_renderer = stopped_renderer\<lparr>m_state := State_Running, m_device := Some speakers\<rparr>"

definition paused_renderer :: AudioRenderer where
  "paused_renderer = stopped_renderer\<lparr>m_state := State_Paused, m_device := Some speakers\<rparr>"

text \<open>The multiplication and division \<open>a * b / c\<close> with the rounding term \<open>d\<close>.\<close>

definition muldiv :: "int \<Rightarrow> int \<Rightarrow> int \<Rightarrow> int \<Rightarrow> int" where
  "muldiv a b c d = (a * b + d) div c"

definition E_OUTOFMEMORY :: HRESULT where
  "E_OUTOFMEMORY = - 2147024882"

text \<open>
  Settings whose serial has moved on from that of \<open>speakers\<close>: the device query
  fails, names the same device, names another device.
\<close>

definition failing_settings :: settings_obs where
  "failing_settings = \<lparr>GetSerial = 2, GetOuputDevice = Inl E_OUTOFMEMORY\<rparr>"

definition same_device_settings :: settings_obs where
  "same_device_settings = \<lparr>GetSerial = 2, GetOuputDevice = Inr (Some [83, 112, 107], 0)\<rparr>"

definition other_device_settings :: settings_obs where
  "other_device_settings = \<lparr>GetSerial = 2, GetOuputDevice = Inr (Some [72, 68], 0)\<rparr>"

text \<open>Three frames of 16-bit stereo.\<close>

definition three_frames :: DspChunk where
  "three_frames = \<lparr>frameSize = 4, frames = [[0, 0, 0, 0], [1, 0, 1, 0], [2, 0, 2, 0]]\<rparr>"

text \<open>
  An environment for \<open>Enqueue\<close>: unchanged settings, a sample of three frames, DSP
  stages that leave the chunk alone, and a graph clock 5 ms ahead of the audio clock.
\<close>

definition steady_env :: enqueue_env where
  "steady_env = \<lparr>ee_settings = \<lparr>GetSerial = 1, GetOuputDevice = Inr (None, 0)\<rparr>,
     ee_CreateDevice = Some speakers, ee_GetLastSampleEnd = 0,
     ee_ProcessSample = Inr three_frames, ee_GetTimingsError = 0, ee_GetSlavedClockOffset = 0,
     ee_dspRateActive = True, ee_GetAudioClockStartTime = Inr 0,
     ee_GetAudioClockTime = Inr 1000000, ee_GetTime = Inr 1050000,
     ee_dspProcess = (\<lambda>chunk. Inr chunk), ee_pushEvents = []\<rparr>"

text \<open>The same with an audio clock that has not moved past its start time.\<close>

definition unstarted_clock_env :: enqueue_env where
  "unstarted_clock_env = steady_env\<lparr>ee_GetAudioClockStartTime := Inr 1000000\<rparr>"

text \<open>The same with DSP stages that run out of memory.\<close>

definition exhausted_env :: enqueue_env where
  "exhausted_env = steady_env\<lparr>ee_dspProcess := (\<lambda>chunk. Inl bad_alloc)\<rparr>"

text \<open>The running renderer on an external graph clock.\<close>

definition external_renderer :: AudioRenderer where
  "external_renderer = running_renderer\<lparr>m_graphClock := Some (OtherClock 1), m_externalClock := True\<rparr>"

text \<open>A healthy device with a buffer of 480 frames, 478 of them still queued.\<close>

definition roomy_ev :: push_ev where
  "roomy_ev = \<lparr>pe_beginFlush = False, pe_GetBufferSize = Inr 480, pe_GetCurrentPadding = Inr 478,
     pe_GetBuffer = Inr (), pe_ReleaseBuffer = Inr (), pe_GetTime = Inr 0,
     pe_GetLastSampleEnd = 0\<rparr>"

text \<open>An environment for \<open>Finish\<close> in which nothing is drained.\<close>

definition idle_env :: finish_env where
  "idle_env = \<lparr>fe_dspFinish = Inr DspChunk_empty, fe_pushEvents = [], fe_blockEvents = []\<rparr>"

text \<open>A paused renderer with no device session.\<close>

definition waiting_renderer :: AudioRenderer where
  "waiting_renderer = stopped_renderer\<lparr>m_state := State_Paused\<rparr>"

text \<open>The healthy device, during a wait in which a flush begins.\<close>

definition flushing_ev :: push_ev where
  "flushing_ev = roomy_ev\<lparr>pe_beginFlush := True\<rparr>"


text \<open>
  The running renderer with one second of audio pushed, a device clock that stands at
  half a second, the same while a flush begins, and a device clock that has reached
  the end.
\<close>

definition half_played :: AudioRenderer where
  "half_played = running_renderer\<lparr>m_pushedFrames := 48000\<rparr>"

definition stalled_ev :: block_ev where
  "stalled_ev = \<lparr>be_GetFrequency = Inr 48000, be_GetPosition = Inr 24000, be_beginFlush = False\<rparr>"

definition stalled_flush_ev :: block_ev where
  "stalled_flush_ev = stalled_ev\<lparr>be_beginFlush := True\<rparr>"

definition drained_ev :: block_ev where
  "drained_ev = \<lparr>be_GetFrequency = Inr 48000, be_GetPosition = Inr 48000, be_beginFlush = False\<rparr>"

text \<open>
  The scenario of the spec, with three frames: the environment of the \<open>Enqueue\<close>,
  the renderer after \<open>SetFormat\<close> and \<open>Play\<close>, and the renderer after the
  \<open>Enqueue\<close>.
\<close>

definition streaming_env :: enqueue_env where
  "streaming_env = steady_env\<lparr>ee_pushEvents := [roomy_ev, roomy_ev]\<rparr>"

definition started_renderer :: AudioRenderer where
  "started_renderer = stopped_renderer\<lparr>m_state := State_Running,
        trace := [TimingsCorrection_SetFormat (Some pcm_48k_stereo_16), DeviceManager_ReleaseDevice]\<rparr>"

definition streamed_renderer :: AudioRenderer where
  "streamed_renderer = stopped_renderer\<lparr>m_state := State_Running, m_device := Some speakers,
        m_pushedFrames := 3,
        trace := [TimingsCorrection_SetFormat (Some pcm_48k_stereo_16), DeviceManager_ReleaseDevice,
                  DeviceManager_CreateDevice, Dsp_Initialize, SlaveClockToAudio 0, AudioClient_Start,
                  RenderClient_Write [[0, 0, 0, 0], [1, 0, 1, 0]], Flush_Wait 50,
                  RenderClient_Write [[2, 0, 2, 0]]]\<rparr>"

text \<open>
  Environments for an \<open>Enqueue\<close> on the external clock that pushes its three frames:
  with an audio clock not past its start time, and with an inactive rate stage; and the
  external renderer after an \<open>Enqueue\<close> that fed 5 ms to the rate stage, and after one
  that fed nothing.
\<close>

definition unstarted_streaming_env :: enqueue_env where
  "unstarted_streaming_env = unstarted_clock_env\<lparr>ee_pushEvents := [roomy_ev, roomy_ev]\<rparr>"

definition inactive_rate_env :: enqueue_env where
  "inactive_rate_env = streaming_env\<lparr>ee_dspRateActive := False\<rparr>"

definition adjusted_renderer :: AudioRenderer where
  "adjusted_renderer = external_renderer\<lparr>
     trace := [DspRate_Adjust 50000, RenderClient_Write [[0, 0, 0, 0], [1, 0, 1, 0]],
               Flush_Wait 50, RenderClient_Write [[2, 0, 2, 0]]],
     m_correctedWithRateDsp := 50000, m_bufferFilled := False, m_pushedFrames := 3\<rparr>"

definition unadjusted_renderer :: AudioRenderer where
  "unadjusted_renderer = external_renderer\<lparr>
     trace := [RenderClient_Write [[0, 0, 0, 0], [1, 0, 1, 0]],
               Flush_Wait 50, RenderClient_Write [[2, 0, 2, 0]]],
     m_bufferFilled := False, m_pushedFrames := 3\<rparr>"

section \<open>Properties\<close>

subsection \<open>Fields kept by the helpers\<close>

text \<open>Lemmas shared by the properties below.\<close>

lemma ClearDevice_fields:
  "m_device (ClearDevice s) = None"
  "m_pushedFrames (ClearDevice s) = 0"
  "m_state (ClearDevice s) = m_state s"
  "m_inputFormat (ClearDevice s) = m_inputFormat s"
  "m_flush (ClearDevice s) = m_flush s"
  by (simp_all add: ClearDevice_def emit_def Let_def)

lemma flush_Wait_fields:
  "m_device (flush_Wait ms raised s) = m_device s"
  "m_pushedFrames (flush_Wait ms raised s) = m_pushedFrames s"
  "m_state (flush_Wait ms raised s) = m_state s"
  "trace (flush_Wait ms raised s) = trace s @ [Flush_Wait ms]"
  "m_flush (flush_Wait ms raised s) = (m_flush s \<or> raised)"
  by (simp_all add: flush_Wait_def emit_def)

lemma CheckDeviceSettings_keeps:
  "CheckDeviceSettings st s = Some s1 \<Longrightarrow> m_state s1 = m_state s \<and> m_inputFormat s1 = m_inputFormat s"
  by (auto simp: CheckDeviceSettings_def Let_def ClearDevice_fields
      split: option.splits if_splits sum.splits prod.splits)

lemma StartDevice_keeps:
  "StartDevice s = Some s1 \<Longrightarrow> m_state s1 = m_state s \<and> m_inputFormat s1 = m_inputFormat s"
  by (auto simp: StartDevice_def emit_def split: if_splits)

lemma InitializeProcessors_keeps:
  "InitializeProcessors s = Some s1 \<Longrightarrow> m_state s1 = m_state s \<and> m_inputFormat s1 = m_inputFormat s"
  by (auto simp: InitializeProcessors_def emit_def Let_def split: if_splits option.splits)

lemma CreateDevice_keeps:
  "CreateDevice created lastSampleEnd s = Some s1 \<Longrightarrow>
     m_state s1 = m_state s \<and> m_inputFormat s1 = m_inputFormat s"
  by (auto simp: CreateDevice_def emit_def Let_def split: if_splits option.splits
      dest!: InitializeProcessors_keeps StartDevice_keeps)

lemma rate_correction_keeps:
  "m_state (rate_correction e s) = m_state s \<and> m_inputFormat (rate_correction e s) = m_inputFormat s"
  by (simp add: rate_correction_def emit_def Let_def split: sum.splits)

lemma clock_correction_keeps:
  "clock_correction d e s = Some s1 \<Longrightarrow> m_state s1 = m_state s \<and> m_inputFormat s1 = m_inputFormat s"
  by (auto simp: clock_correction_def emit_def Let_def rate_correction_keeps split: if_splits)

lemma Enqueue_try_keeps:
  assumes "Enqueue_try e s = Thrown ex s1"
  shows "m_state s1 = m_state s \<and> m_inputFormat s1 = m_inputFormat s"
proof -
  from assms obtain sa sb where a: "CheckDeviceSettings (ee_settings e) s = Some sa"
    and b: "(if m_device sa = None
            then CreateDevice (ee_CreateDevice e) (ee_GetLastSampleEnd e) sa
            else Some sa) = Some sb"
    by (auto simp: Enqueue_try_def split: option.splits)
  have ka: "m_state sa = m_state s \<and> m_inputFormat sa = m_inputFormat s"
    using a by (rule CheckDeviceSettings_keeps)
  have kb: "m_state sb = m_state sa \<and> m_inputFormat sb = m_inputFormat sa"
    using b by (auto split: if_splits dest: CreateDevice_keeps)
  show ?thesis
  proof (cases "ee_ProcessSample e")
    case (Inl x)
    with assms a b have "s1 = sb" by (simp add: Enqueue_try_def)
    with ka kb show ?thesis by simp
  next
    case (Inr chunk)
    with assms a b obtain sc where c: "(case m_device sb of
              None \<Rightarrow> Some sb
            | Some d \<Rightarrow> if m_state sb = State_Running then clock_correction d e sb else Some sb) = Some sc"
      and d: "s1 = sc"
      by (auto simp: Enqueue_try_def split: option.splits if_splits sum.splits)
    have "m_state sc = m_state sb \<and> m_inputFormat sc = m_inputFormat sb"
      using c by (auto split: option.splits if_splits dest: clock_correction_keeps)
    with ka kb d show ?thesis by simp
  qed
qed

lemma adjustments_append: "adjustments (xs @ ys) = adjustments xs @ adjustments ys"
  by (induction xs rule: adjustments.induct) simp_all

subsection \<open>CheckDeviceSettings\<close>

text \<open>
  C6, as the code has it. While a session exists, \<open>CheckDeviceSettings\<close> changes
  nothing when the session's serial equals the settings' serial, and nothing when the
  serial differs but the query \<open>GetOuputDevice\<close> fails. When the serial differs and
  the query succeeds, a compatible change (same exclusivity, same device identity)
  keeps the session and stores the new serial in it, and an incompatible change
  clears the session.
\<close>

theorem CheckDeviceSettings_cases:
  "m_device s = Some d \<Longrightarrow>
   CheckDeviceSettings st s =
     Some (if settingsSerial d = GetSerial st then s
           else case GetOuputDevice st of
                  Inl hr \<Rightarrow> s
                | Inr (pDeviceName, exclusive_flag) \<Rightarrow>
                    if compatible d pDeviceName exclusive_flag
                    then s\<lparr>m_device := Some (d\<lparr>settingsSerial := GetSerial st\<rparr>)\<rparr>
                    else ClearDevice s)"
  by (auto simp: CheckDeviceSettings_def compatible_def same_identity_def Let_def ClearDevice_def emit_def
      split: sum.splits option.splits prod.splits)

theorem CheckDeviceSettings_cases_witness:
  "m_device running_renderer = Some speakers \<and>
   CheckDeviceSettings same_device_settings running_renderer
     = Some (running_renderer\<lparr>m_device := Some (speakers\<lparr>settingsSerial := 2\<rparr>)\<rparr>) \<and>
   CheckDeviceSettings other_device_settings running_renderer = Some (ClearDevice running_renderer)"
  using CheckDeviceSettings_cases [of running_renderer speakers same_device_settings]
    CheckDeviceSettings_cases [of running_renderer speakers other_device_settings]
  by (simp add: running_renderer_def stopped_renderer_def speakers_def same_device_settings_def
      other_device_settings_def compatible_def same_identity_def c_str_def)

text \<open>
  C6 as stated fails when the device query fails: the serial of the settings has
  moved on from the session's, yet the session is neither cleared nor given the new
  serial.
\<close>

theorem CheckDeviceSettings_query_fails:
  "m_device running_renderer = Some speakers \<and>
   settingsSerial speakers \<noteq> GetSerial failing_settings \<and>
   CheckDeviceSettings failing_settings running_renderer = Some running_renderer"
  by (simp add: CheckDeviceSettings_def running_renderer_def stopped_renderer_def speakers_def
      failing_settings_def)

subsection \<open>EndFlush\<close>

text \<open>
  C7. \<open>EndFlush\<close> asserts that the state is not Running. Every call that passes the
  assertion sets \<open>m_pushedFrames\<close> to 0 and resets the flush event; when a session
  exists it also resets the audio client (the device's buffer) and the buffer-filled
  event, and when none exists it leaves both alone.
\<close>

theorem EndFlush_resets:
  "(m_state s = State_Running \<longrightarrow> EndFlush s = None) \<and>
   (m_state s \<noteq> State_Running \<longrightarrow>
      (\<exists>s'. EndFlush s = Some s' \<and> m_pushedFrames s' = 0 \<and> \<not> m_flush s' \<and>
         (if m_device s \<noteq> None
          then trace s' = trace s @ [AudioClient_Reset] \<and> \<not> m_bufferFilled s'
          else trace s' = trace s \<and> m_bufferFilled s' = m_bufferFilled s) \<and>
         m_device s' = m_device s \<and> m_state s' = m_state s))"
  by (simp add: EndFlush_def emit_def Let_def)

theorem EndFlush_resets_witness:
  "m_state paused_renderer \<noteq> State_Running \<and>
   (\<exists>s'. EndFlush (paused_renderer\<lparr>m_pushedFrames := 480, m_flush := True, m_bufferFilled := True\<rparr>) = Some s'
       \<and> m_pushedFrames s' = 0 \<and> \<not> m_flush s'
       \<and> trace s' = [AudioClient_Reset] \<and> \<not> m_bufferFilled s')"
  using EndFlush_resets [of "paused_renderer\<lparr>m_pushedFrames := 480, m_flush := True, m_bufferFilled := True\<rparr>"]
  by (auto simp: paused_renderer_def stopped_renderer_def)

subsection \<open>Finish without a device session\<close>

text \<open>
  C10. With no device session, \<open>Finish(true)\<close> is \<open>Finish(false)\<close>: outside the state
  Stopped (which the entry assertion excludes) it returns true at once with the object
  unchanged; nothing is drained, the empty chunk goes to \<open>Push\<close>, and the drain wait
  does not run.
\<close>

theorem Finish_without_device:
  "m_device s = None \<Longrightarrow>
     Finish llMulDiv True e s = Finish llMulDiv False e s \<and>
     (m_state s \<noteq> State_Stopped \<longrightarrow> Finish llMulDiv True e s = Returned True s)"
  by (simp add: Finish_def Finish_return_def Push_def IsEmpty_def DspChunk_empty_def)

theorem Finish_without_device_witness:
  "m_device waiting_renderer = None \<and>
   Finish muldiv True idle_env waiting_renderer = Returned True waiting_renderer \<and>
   Finish muldiv False idle_env waiting_renderer = Returned True waiting_renderer"
proof -
  have d: "m_device waiting_renderer = None" and n: "m_state waiting_renderer \<noteq> State_Stopped"
    by (simp_all add: waiting_renderer_def stopped_renderer_def)
  from Finish_without_device [OF d, of muldiv idle_env] n
  have a: "Finish muldiv False idle_env waiting_renderer = Finish muldiv True idle_env waiting_renderer"
    and b: "Finish muldiv True idle_env waiting_renderer = Returned True waiting_renderer"
    by auto
  from d a b show ?thesis by simp
qed

subsection \<open>Rate correction on an external clock\<close>

lemma rate_state_kept_refl: "rate_state_kept s s"
  by (simp add: rate_state_kept_def)

lemma rate_state_kept_trans:
  "rate_state_kept s s1 \<Longrightarrow> rate_state_kept s1 s2 \<Longrightarrow> rate_state_kept s s2"
  by (simp add: rate_state_kept_def)

lemma rate_state_kept_ClearDevice: "rate_state_kept s (ClearDevice s)"
  by (simp add: rate_state_kept_def ClearDevice_def emit_def Let_def adjustments_append)

lemma rate_state_kept_flush_Wait: "rate_state_kept s (flush_Wait ms raised s)"
  by (simp add: rate_state_kept_def flush_Wait_def emit_def adjustments_append)

lemma Push_no_device_rate:
  "case Push_no_device doneFrames e s of
      Step_continue n s' \<Rightarrow> rate_state_kept s s'
    | Step_break s' \<Rightarrow> rate_state_kept s s'
    | Step_assert \<Rightarrow> True"
  by (simp add: Push_no_device_def rate_state_kept_def Let_def)

lemma Push_locked_rate:
  "case Push_locked chunk doneFrames e s of
      Step_continue n s' \<Rightarrow> rate_state_kept s s'
    | Step_break s' \<Rightarrow> rate_state_kept s s'
    | Step_assert \<Rightarrow> True"
proof -
  have c: "case Push_no_device doneFrames e (ClearDevice s) of
      Step_continue n s' \<Rightarrow> rate_state_kept s s'
    | Step_break s' \<Rightarrow> rate_state_kept s s'
    | Step_assert \<Rightarrow> True"
    using Push_no_device_rate [where doneFrames = doneFrames and e = e and s = "ClearDevice s"] rate_state_kept_ClearDevice [of s]
    by (auto split: push_step.splits intro: rate_state_kept_trans)
  show ?thesis
    using c Push_no_device_rate [where doneFrames = doneFrames and e = e and s = s]
    by (simp add: Push_locked_def Let_def emit_def rate_state_kept_def adjustments_append
        split: option.splits sum.splits)
qed

lemma Push_loop_rate:
  "state_after (Push_loop chunk doneFrames firstIteration evs s) = Some s' \<Longrightarrow> rate_state_kept s s'"
proof (induction evs arbitrary: s doneFrames firstIteration)
  case Nil
  then show ?case by (auto simp: rate_state_kept_refl split: if_splits)
next
  case (Cons e evs)
  define s1 where "s1 = (if \<not> firstIteration then flush_Wait 50 (pe_beginFlush e) s else s)"
  have k1: "rate_state_kept s s1"
    by (simp add: s1_def rate_state_kept_refl rate_state_kept_flush_Wait)
  note step = Push_locked_rate [where chunk = chunk and doneFrames = doneFrames and e = e and s = s1]
  show ?case
  proof (cases "\<not> doneFrames < GetFrameCount chunk")
    case True
    with Cons.prems show ?thesis by (simp add: rate_state_kept_refl)
  next
    case False
    then have u: "Push_loop chunk doneFrames firstIteration (e # evs) s =
        (if \<not> firstIteration \<and> m_flush s1 then Returned False s1
         else case Push_locked chunk doneFrames e s1 of
                Step_assert \<Rightarrow> AssertionFailed
              | Step_break s2 \<Rightarrow> Returned True s2
              | Step_continue doneFrames' s2 \<Rightarrow> Push_loop chunk doneFrames' False evs s2)"
      by (simp add: s1_def Let_def)
    show ?thesis
    proof (cases "\<not> firstIteration \<and> m_flush s1")
      case True
      with u Cons.prems have "s' = s1" by simp
      with k1 show ?thesis by simp
    next
      case nf: False
      with u have u2: "Push_loop chunk doneFrames firstIteration (e # evs) s =
         (case Push_locked chunk doneFrames e s1 of
                Step_assert \<Rightarrow> AssertionFailed
              | Step_break s2 \<Rightarrow> Returned True s2
              | Step_continue doneFrames' s2 \<Rightarrow> Push_loop chunk doneFrames' False evs s2)"
        by auto
      show ?thesis
      proof (cases "Push_locked chunk doneFrames e s1")
        case (Step_continue n s2)
        with step have k2: "rate_state_kept s1 s2" by simp
        from Step_continue u2 Cons.prems
        have "state_after (Push_loop chunk n False evs s2) = Some s'" by simp
        then have "rate_state_kept s2 s'" by (rule Cons.IH)
        with k1 k2 show ?thesis by (blast intro: rate_state_kept_trans)
      next
        case (Step_break s2)
        with step u2 Cons.prems k1 show ?thesis by (auto intro: rate_state_kept_trans)
      next
        case Step_assert
        with u2 Cons.prems show ?thesis by simp
      qed
    qed
  qed
qed

lemma Push_rate:
  "state_after (Push chunk evs s) = Some s' \<Longrightarrow> rate_state_kept s s'"
  by (auto simp: Push_def rate_state_kept_refl dest: Push_loop_rate split: if_splits)

lemma StartDevice_rate:
  "StartDevice s = Some s1 \<Longrightarrow>
     adjustments (trace s1) = adjustments (trace s) \<and> m_externalClock s1 = m_externalClock s
     \<and> m_correctedWithRateDsp s1 = m_correctedWithRateDsp s"
  by (auto simp: StartDevice_def emit_def adjustments_append split: if_splits)

lemma InitializeProcessors_rate:
  "InitializeProcessors s = Some s1 \<Longrightarrow>
     adjustments (trace s1) = adjustments (trace s) \<and> m_externalClock s1 = m_externalClock s"
  by (auto simp: InitializeProcessors_def emit_def Let_def adjustments_append
      split: if_splits option.splits)

lemma CreateDevice_rate:
  assumes "CreateDevice created lastSampleEnd s = Some s1"
  shows "adjustments (trace s1) = adjustments (trace s) \<and> m_externalClock s1 = m_externalClock s"
proof (cases created)
  case None
  with assms show ?thesis
    by (auto simp: CreateDevice_def emit_def Let_def adjustments_append split: if_splits)
next
  case (Some d)
  let ?s1 = "(emit DeviceManager_CreateDevice s)\<lparr>m_device := created\<rparr>"
  from assms Some obtain s2 where
    i: "InitializeProcessors ?s1 = Some s2"
    and r: "(let s3 = s2\<lparr>m_startClockOffset := lastSampleEnd\<rparr>
             in if m_state s3 = State_Running then StartDevice s3 else Some s3) = Some s1"
    by (auto simp: CreateDevice_def Let_def split: if_splits option.splits)
  from i have "adjustments (trace s2) = adjustments (trace s) \<and> m_externalClock s2 = m_externalClock s"
    by (auto dest: InitializeProcessors_rate simp: emit_def adjustments_append)
  moreover from r have "adjustments (trace s1) = adjustments (trace s2)
      \<and> m_externalClock s1 = m_externalClock s2"
    by (auto simp: Let_def dest: StartDevice_rate split: if_splits)
  ultimately show ?thesis by simp
qed

lemma CheckDeviceSettings_rate:
  "CheckDeviceSettings st s = Some s1 \<Longrightarrow>
     adjustments (trace s1) = adjustments (trace s) \<and> m_externalClock s1 = m_externalClock s"
  by (auto simp: CheckDeviceSettings_def Let_def ClearDevice_def emit_def adjustments_append
      split: option.splits if_splits sum.splits prod.splits)

lemma clock_correction_feeds:
  assumes "m_externalClock s" and "\<not> bitstream d" and "ee_dspRateActive e"
  shows "\<exists>s1. clock_correction d e s = Some s1 \<and> m_device s1 = m_device s \<and>
           rate_stage_fed (due_adjustment e s) s s s1"
  using assms
  by (simp add: clock_correction_def rate_correction_def external_offset_def due_adjustment_def
      rate_stage_fed_def emit_def Let_def adjustments_append split: sum.splits)


lemma rate_stage_fed_kept:
  "rate_stage_fed due s s2 s3 \<Longrightarrow> rate_state_kept s3 s' \<Longrightarrow> rate_stage_fed due s s2 s'"
  by (simp add: rate_stage_fed_def rate_state_kept_def split: option.splits)

lemma rate_stage_fed_from:
  "adjustments (trace s2) = adjustments (trace s) \<Longrightarrow> rate_stage_fed due s2 s2 s3
     \<Longrightarrow> rate_stage_fed due s s2 s3"
  by (simp add: rate_stage_fed_def split: option.splits)

lemma external_renderer_fields:
  "m_inputFormat external_renderer \<noteq> None" "m_state external_renderer = State_Running"
  "m_externalClock external_renderer" "m_device external_renderer = Some speakers"
  "m_correctedWithRateDsp external_renderer = 0" "trace external_renderer = []"
  by (simp_all add: external_renderer_def running_renderer_def stopped_renderer_def)

lemma external_try_adjusted:
  "Enqueue_try streaming_env external_renderer =
     Returned three_frames
       (external_renderer\<lparr>trace := [DspRate_Adjust 50000], m_correctedWithRateDsp := 50000\<rparr>)"
  by (simp add: Enqueue_try_def CheckDeviceSettings_def clock_correction_def rate_correction_def
      emit_def Let_def streaming_env_def steady_env_def MILLISECONDS_TO_100NS_UNITS_def
      external_renderer_def running_renderer_def stopped_renderer_def speakers_def)

lemma external_push_adjusted:
  "Push three_frames [roomy_ev, roomy_ev]
       (external_renderer\<lparr>trace := [DspRate_Adjust 50000], m_correctedWithRateDsp := 50000\<rparr>)
     = Returned True adjusted_renderer"
  by (simp add: Push_def IsEmpty_def GetFrameCount_def GetFrameSize_def Push_locked_def Let_def
      flush_Wait_def emit_def three_frames_def roomy_ev_def adjusted_renderer_def
      external_renderer_def running_renderer_def stopped_renderer_def speakers_def
      pcm_48k_stereo_16_def)

lemma external_try_unadjusted:
  "Enqueue_try unstarted_streaming_env external_renderer = Returned three_frames external_renderer"
  by (simp add: Enqueue_try_def CheckDeviceSettings_def clock_correction_def rate_correction_def
      emit_def Let_def unstarted_streaming_env_def unstarted_clock_env_def steady_env_def
      external_renderer_def running_renderer_def stopped_renderer_def speakers_def)

lemma external_push_unadjusted:
  "Push three_frames [roomy_ev, roomy_ev] external_renderer = Returned True unadjusted_renderer"
  by (simp add: Push_def IsEmpty_def GetFrameCount_def GetFrameSize_def Push_locked_def Let_def
      flush_Wait_def emit_def three_frames_def roomy_ev_def unadjusted_renderer_def
      external_renderer_def running_renderer_def stopped_renderer_def speakers_def
      pcm_48k_stereo_16_def)

text \<open>
  C4, as the code has it. Take an \<open>Enqueue\<close> in the state Running on an external
  clock, whose settings check and device creation leave a session \<open>d\<close> that is not
  bitstream (the object is then \<open>s2\<close>), and whose timings correction returns a chunk.
  If the rate stage is not active the call fails its assertion. If it is active, an
  offset is fed to the rate stage during the call exactly when the three clock queries
  succeed, the audio clock's time is past its start time, and the absolute value of
  graph time minus audio time minus the correction accumulated in \<open>s2\<close> exceeds 2 ms
  (20000 units of 100 ns). The offset fed is that difference, it is fed once, and the
  accumulated correction grows by exactly it; otherwise nothing is fed and the
  accumulated correction stays. This holds of the object at the end of the \<open>try\<close>
  block and of the object the call leaves, however \<open>Push\<close> ends.
\<close>

theorem Enqueue_rate_adjustment:
  assumes fmt: "m_inputFormat s \<noteq> None" and run: "m_state s = State_Running"
    and ext: "m_externalClock s"
    and chk: "CheckDeviceSettings (ee_settings e) s = Some s1"
    and crt: "(if m_device s1 = None
               then CreateDevice (ee_CreateDevice e) (ee_GetLastSampleEnd e) s1
               else Some s1) = Some s2"
    and dev: "m_device s2 = Some d" and nb: "\<not> bitstream d"
    and smp: "ee_ProcessSample e = Inr chunk"
  shows "if \<not> ee_dspRateActive e
         then Enqueue_try e s = AssertionFailed \<and> Enqueue e s = AssertionFailed
         else (\<exists>s3. Enqueue_try e s =
                       (case ee_dspProcess e chunk of
                          Inl ex \<Rightarrow> Thrown ex s3
                        | Inr chunk' \<Rightarrow> Returned chunk' s3)
                    \<and> rate_stage_fed (due_adjustment e s2) s s2 s3)
              \<and> (\<forall>s'. state_after (Enqueue e s) = Some s'
                     \<longrightarrow> rate_stage_fed (due_adjustment e s2) s s2 s')"
proof -
  have a1: "adjustments (trace s1) = adjustments (trace s)" and x1: "m_externalClock s1"
    and r1: "m_state s1 = State_Running"
    using chk ext run CheckDeviceSettings_rate [OF chk] CheckDeviceSettings_keeps [OF chk]
    by simp_all
  have a2: "adjustments (trace s2) = adjustments (trace s)" and x2: "m_externalClock s2"
    and r2: "m_state s2 = State_Running"
    using crt a1 x1 r1
    by (auto split: if_splits dest: CreateDevice_rate CreateDevice_keeps)
  have try_eq: "Enqueue_try e s =
      (case clock_correction d e s2 of
         None \<Rightarrow> AssertionFailed
       | Some s3 \<Rightarrow>
           (case m_device s3 of
              None \<Rightarrow> Returned chunk s3
            | Some d' \<Rightarrow>
                if \<not> bitstream d'
                then (case ee_dspProcess e chunk of
                        Inl ex \<Rightarrow> Thrown ex s3
                      | Inr chunk' \<Rightarrow> Returned chunk' s3)
                else Returned chunk s3))"
    using chk crt dev smp r2 by (simp add: Enqueue_try_def)
  have enq_eq: "Enqueue e s =
      (case Enqueue_try e s of
        Returned chunk s1 \<Rightarrow> Push chunk (ee_pushEvents e) s1
      | Thrown bad_alloc s1 \<Rightarrow> Push DspChunk_empty (ee_pushEvents e) (ClearDevice s1)
      | Thrown (thrown_HRESULT hr) s1 \<Rightarrow> Thrown (thrown_HRESULT hr) s1
      | AssertionFailed \<Rightarrow> AssertionFailed
      | Pending s1 \<Rightarrow> Pending s1)"
    using fmt run by (auto simp: Enqueue_def)
  show ?thesis
  proof (cases "ee_dspRateActive e")
    case False
    with x2 nb have "clock_correction d e s2 = None"
      by (simp add: clock_correction_def Let_def emit_def)
    with try_eq enq_eq False show ?thesis by simp
  next
    case True
    from clock_correction_feeds [OF x2 nb True]
    obtain s3 where cc: "clock_correction d e s2 = Some s3" and d3: "m_device s3 = Some d"
      and f3: "rate_stage_fed (due_adjustment e s2) s2 s2 s3"
      using dev by auto
    have fed3: "rate_stage_fed (due_adjustment e s2) s s2 s3"
      using a2 f3 by (rule rate_stage_fed_from)
    have t3: "Enqueue_try e s =
                       (case ee_dspProcess e chunk of
                          Inl ex \<Rightarrow> Thrown ex s3
                        | Inr chunk' \<Rightarrow> Returned chunk' s3)"
      using try_eq cc d3 nb by simp
    have "rate_stage_fed (due_adjustment e s2) s s2 s'"
      if out: "state_after (Enqueue e s) = Some s'" for s'
    proof (cases "ee_dspProcess e chunk")
      case (Inr chunk')
      with t3 enq_eq out have "state_after (Push chunk' (ee_pushEvents e) s3) = Some s'"
        by simp
      then have "rate_state_kept s3 s'" by (rule Push_rate)
      with fed3 show ?thesis by (rule rate_stage_fed_kept)
    next
      case (Inl ex)
      show ?thesis
      proof (cases ex)
        case bad_alloc
        with Inl t3 enq_eq out
        have "state_after (Push DspChunk_empty (ee_pushEvents e) (ClearDevice s3)) = Some s'"
          by simp
        then have "rate_state_kept (ClearDevice s3) s'" by (rule Push_rate)
        with rate_state_kept_ClearDevice [of s3] have "rate_state_kept s3 s'"
          by (rule rate_state_kept_trans)
        with fed3 show ?thesis by (rule rate_stage_fed_kept)
      next
        case (thrown_HRESULT hr)
        with Inl t3 enq_eq out have "s' = s3" by simp
        with fed3 show ?thesis by simp
      qed
    qed
    with t3 fed3 True show ?thesis by auto
  qed
qed


theorem Enqueue_rate_adjustment_witness:
  "m_inputFormat external_renderer \<noteq> None \<and> m_state external_renderer = State_Running \<and>
   m_externalClock external_renderer \<and>
   CheckDeviceSettings (ee_settings streaming_env) external_renderer = Some external_renderer \<and>
   m_device external_renderer = Some speakers \<and> \<not> bitstream speakers \<and>
   ee_ProcessSample streaming_env = Inr three_frames \<and> ee_dspRateActive streaming_env \<and>
   due_adjustment streaming_env external_renderer = Some 50000 \<and>
   Enqueue streaming_env external_renderer = Returned True adjusted_renderer \<and>
   adjustments (trace adjusted_renderer) = adjustments (trace external_renderer) @ [50000] \<and>
   m_correctedWithRateDsp adjusted_renderer = m_correctedWithRateDsp external_renderer + 50000 \<and>
   \<not> ee_dspRateActive inactive_rate_env \<and>
   Enqueue inactive_rate_env external_renderer = AssertionFailed"
proof -
  note f = external_renderer_fields
  have chk: "CheckDeviceSettings (ee_settings streaming_env) external_renderer = Some external_renderer"
    and chk': "CheckDeviceSettings (ee_settings inactive_rate_env) external_renderer
                 = Some external_renderer"
    by (simp_all add: CheckDeviceSettings_def f inactive_rate_env_def streaming_env_def
        steady_env_def speakers_def)
  have crt: "(if m_device external_renderer = None
               then CreateDevice (ee_CreateDevice streaming_env) (ee_GetLastSampleEnd streaming_env)
                      external_renderer
               else Some external_renderer) = Some external_renderer"
    and crt': "(if m_device external_renderer = None
               then CreateDevice (ee_CreateDevice inactive_rate_env)
                      (ee_GetLastSampleEnd inactive_rate_env) external_renderer
               else Some external_renderer) = Some external_renderer"
    by (simp_all add: f)
  have nb: "\<not> bitstream speakers" by (simp add: speakers_def)
  have smp: "ee_ProcessSample streaming_env = Inr three_frames"
    and smp': "ee_ProcessSample inactive_rate_env = Inr three_frames"
    and act: "ee_dspRateActive streaming_env" and inact: "\<not> ee_dspRateActive inactive_rate_env"
    by (simp_all add: inactive_rate_env_def streaming_env_def steady_env_def)
  have due: "due_adjustment streaming_env external_renderer = Some 50000"
    by (simp add: due_adjustment_def external_offset_def f streaming_env_def steady_env_def
        MILLISECONDS_TO_100NS_UNITS_def)
  have run: "Enqueue streaming_env external_renderer = Returned True adjusted_renderer"
    using external_try_adjusted external_push_adjusted
    by (simp add: Enqueue_def f) (simp add: streaming_env_def)
  from Enqueue_rate_adjustment [OF f(1) f(2) f(3) chk crt f(4) nb smp] act run due
  have "rate_stage_fed (Some 50000) external_renderer external_renderer adjusted_renderer"
    by simp
  then have fed: "adjustments (trace adjusted_renderer) = adjustments (trace external_renderer) @ [50000]
      \<and> m_correctedWithRateDsp adjusted_renderer = m_correctedWithRateDsp external_renderer + 50000"
    by (simp add: rate_stage_fed_def)
  from Enqueue_rate_adjustment [OF f(1) f(2) f(3) chk' crt' f(4) nb smp'] inact
  have fail: "Enqueue inactive_rate_env external_renderer = AssertionFailed"
    by simp
  from f chk nb smp act due run fed inact fail show ?thesis by blast
qed


text \<open>
  C4 as stated fails when the audio clock has not moved past its start time: in a
  Running \<open>Enqueue\<close> on an external clock and a session that is not bitstream, with
  the rate stage active, the graph clock is 5 ms ahead of the audio clock and nothing
  was corrected before, yet the call returns having fed nothing to the rate stage.
\<close>

theorem Enqueue_rate_adjustment_skipped:
  "m_state external_renderer = State_Running \<and> m_device external_renderer = Some speakers \<and>
   m_externalClock external_renderer \<and> ee_dspRateActive unstarted_streaming_env \<and>
   ee_GetTime unstarted_streaming_env = Inr 1050000 \<and>
   ee_GetAudioClockTime unstarted_streaming_env = Inr 1000000 \<and>
   m_correctedWithRateDsp external_renderer = 0 \<and>
   \<bar>1050000 - 1000000 - 0\<bar> > MILLISECONDS_TO_100NS_UNITS 2 \<and>
   Enqueue_try unstarted_streaming_env external_renderer = Returned three_frames external_renderer \<and>
   Enqueue unstarted_streaming_env external_renderer = Returned True unadjusted_renderer \<and>
   adjustments (trace unadjusted_renderer) = [] \<and>
   m_correctedWithRateDsp unadjusted_renderer = 0"
proof -
  note f = external_renderer_fields
  have e: "ee_dspRateActive unstarted_streaming_env"
    "ee_GetTime unstarted_streaming_env = Inr 1050000"
    "ee_GetAudioClockTime unstarted_streaming_env = Inr 1000000"
    "\<bar>1050000 - 1000000 - 0\<bar> > MILLISECONDS_TO_100NS_UNITS 2"
    by (simp_all add: unstarted_streaming_env_def unstarted_clock_env_def steady_env_def
        MILLISECONDS_TO_100NS_UNITS_def)
  have run: "Enqueue unstarted_streaming_env external_renderer = Returned True unadjusted_renderer"
    using external_try_unadjusted external_push_unadjusted
    by (simp add: Enqueue_def f)
      (simp add: unstarted_streaming_env_def unstarted_clock_env_def steady_env_def)
  have u: "adjustments (trace unadjusted_renderer) = []"
    "m_correctedWithRateDsp unadjusted_renderer = 0"
    by (simp_all add: unadjusted_renderer_def f)
  from f e external_try_unadjusted run u show ?thesis by blast
qed

subsection \<open>Allocation failure in Enqueue\<close>

text \<open>
  C5. When \<open>std::bad_alloc\<close> leaves the \<open>try\<close> block of \<open>Enqueue\<close> (the entry
  assertions having passed), the session is cleared, the empty chunk goes to \<open>Push\<close>,
  and \<open>Enqueue\<close> returns true; no exception leaves the call. The state and the input
  format are as before the call, so the entry assertions of the next call pass again.
\<close>

theorem Enqueue_bad_alloc:
  assumes "m_inputFormat s \<noteq> None" and "m_state s \<noteq> State_Stopped"
    and "Enqueue_try e s = Thrown bad_alloc s1"
  shows "Enqueue e s = Push DspChunk_empty (ee_pushEvents e) (ClearDevice s1) \<and>
         Enqueue e s = Returned True (ClearDevice s1) \<and>
         m_device (ClearDevice s1) = None \<and>
         m_state (ClearDevice s1) = m_state s \<and>
         m_inputFormat (ClearDevice s1) = m_inputFormat s"
  using assms Enqueue_try_keeps [OF assms(3)]
  by (simp add: Enqueue_def Push_def IsEmpty_def DspChunk_empty_def ClearDevice_fields)

theorem Enqueue_bad_alloc_witness:
  "m_inputFormat running_renderer \<noteq> None \<and> m_state running_renderer \<noteq> State_Stopped \<and>
   Enqueue_try exhausted_env running_renderer = Thrown bad_alloc running_renderer \<and>
   Enqueue exhausted_env running_renderer = Returned True (ClearDevice running_renderer) \<and>
   m_device (ClearDevice running_renderer) = None \<and>
   m_state (ClearDevice running_renderer) = State_Running"
proof -
  have t: "Enqueue_try exhausted_env running_renderer = Thrown bad_alloc running_renderer"
    by (simp add: Enqueue_try_def exhausted_env_def steady_env_def running_renderer_def
        stopped_renderer_def speakers_def CheckDeviceSettings_def clock_correction_def)
  have f: "m_inputFormat running_renderer \<noteq> None" and r: "m_state running_renderer \<noteq> State_Stopped"
    and q: "m_state running_renderer = State_Running"
    by (simp_all add: running_renderer_def stopped_renderer_def)
  have "Enqueue exhausted_env running_renderer = Returned True (ClearDevice running_renderer)"
    using Enqueue_bad_alloc [OF f r t] by blast
  with t f r q show ?thesis by (simp add: ClearDevice_fields)
qed

subsection \<open>A write iteration of Push\<close>

text \<open>
  C3. Take an iteration of \<open>Push\<close> in which the device exists, every device call
  succeeds and the number \<open>doFrames\<close> of frames to write is not zero, where
  \<open>doFrames\<close> is the minimum of the free space (\<open>bufferFrames - bufferPadding\<close>)
  and the frames remaining in the chunk. Exactly that many frames of the chunk,
  starting at \<open>doneFrames\<close>, are written; the buffer-filled event is set when
  \<open>bufferPadding + doFrames = bufferFrames\<close> and reset otherwise; and
  \<open>m_pushedFrames\<close> and \<open>doneFrames\<close> advance by \<open>doFrames\<close>. The code computes in
  \<open>UINT32\<close>; when the padding does not exceed the capacity and the remaining frames fit
  in 32 bits, these are the minimum and the sum of the numbers themselves.
\<close>

theorem Push_write_iteration:
  assumes "m_state s \<noteq> State_Stopped" and "m_device s = Some d"
    and "pe_GetBufferSize e = Inr bufferFrames" and "pe_GetCurrentPadding e = Inr bufferPadding"
    and "pe_GetBuffer e = Inr ()" and "pe_ReleaseBuffer e = Inr ()"
    and "unat (GetFrameSize chunk)
           = unat (wBitsPerSample (waveFormat d)) div 8 * unat (nChannels (waveFormat d))"
    and "doFrames = min (bufferFrames - bufferPadding)
                        (word_of_nat (GetFrameCount chunk - doneFrames))"
    and "doFrames \<noteq> 0"
  shows "Push_locked chunk doneFrames e s =
           Step_continue (doneFrames + unat doFrames)
             (s\<lparr>trace := trace s @ [RenderClient_Write
                                      (take (unat doFrames) (drop doneFrames (frames chunk)))],
                m_bufferFilled := (bufferPadding + doFrames = bufferFrames),
                m_pushedFrames := m_pushedFrames s + unat doFrames\<rparr>) \<and>
         length (take (unat doFrames) (drop doneFrames (frames chunk))) = unat doFrames \<and>
         (bufferPadding \<le> bufferFrames \<and> GetFrameCount chunk - doneFrames < 2 ^ 32 \<longrightarrow>
            unat doFrames = min (unat bufferFrames - unat bufferPadding)
                                (GetFrameCount chunk - doneFrames) \<and>
            (bufferPadding + doFrames = bufferFrames)
              = (unat bufferPadding + unat doFrames = unat bufferFrames))"
proof -
  let ?rem = "GetFrameCount chunk - doneFrames"
  have le: "unat doFrames \<le> ?rem"
  proof -
    have "doFrames \<le> (word_of_nat ?rem :: 32 word)" using assms(8) by simp
    then have "unat doFrames \<le> unat (word_of_nat ?rem :: 32 word)" by (simp add: word_le_nat_alt)
    also have "\<dots> \<le> ?rem" by (simp add: unat_of_nat)
    finally show ?thesis .
  qed
  have step: "Push_locked chunk doneFrames e s =
           Step_continue (doneFrames + unat doFrames)
             (s\<lparr>trace := trace s @ [RenderClient_Write
                                      (take (unat doFrames) (drop doneFrames (frames chunk)))],
                m_bufferFilled := (bufferPadding + doFrames = bufferFrames),
                m_pushedFrames := m_pushedFrames s + unat doFrames\<rparr>)"
    using assms by (simp add: Push_locked_def Let_def emit_def)
  have len: "length (take (unat doFrames) (drop doneFrames (frames chunk))) = unat doFrames"
    using le by (simp add: GetFrameCount_def)
  have nat: "unat doFrames = min (unat bufferFrames - unat bufferPadding) ?rem \<and>
            (bufferPadding + doFrames = bufferFrames)
              = (unat bufferPadding + unat doFrames = unat bufferFrames)"
    if p: "bufferPadding \<le> bufferFrames" and r: "?rem < 2 ^ 32"
  proof -
    have a: "unat (bufferFrames - bufferPadding) = unat bufferFrames - unat bufferPadding"
      using p by (simp add: unat_sub)
    have b: "unat (word_of_nat ?rem :: 32 word) = ?rem"
      using r by (simp add: unat_of_nat)
    have m: "unat doFrames = min (unat bufferFrames - unat bufferPadding) ?rem"
      using a b assms(8) by (simp add: min_def word_le_nat_alt)
    have pn: "unat bufferPadding \<le> unat bufferFrames" using p by (simp add: word_le_nat_alt)
    have lt: "unat bufferFrames < 2 ^ 32"
      using unsigned_less [of bufferFrames, where 'a = nat] by simp
    have "unat bufferPadding + unat doFrames < 2 ^ LENGTH(32)"
      using m pn lt by simp
    then have "unat (bufferPadding + doFrames) = unat bufferPadding + unat doFrames"
      by (simp only: unat_add_lem)
    then have "(bufferPadding + doFrames = bufferFrames)
              = (unat bufferPadding + unat doFrames = unat bufferFrames)"
      by (metis word_unat_eq_iff)
    with m show ?thesis by simp
  qed
  from step len nat show ?thesis by blast
qed

theorem Push_write_iteration_witness:
  "m_state running_renderer \<noteq> State_Stopped \<and> m_device running_renderer = Some speakers \<and>
   pe_GetBufferSize roomy_ev = Inr 480 \<and> pe_GetCurrentPadding roomy_ev = Inr 478 \<and>
   (2 :: 32 word) = min (480 - 478) (word_of_nat (GetFrameCount three_frames - 0)) \<and>
   Push_locked three_frames 0 roomy_ev running_renderer =
     Step_continue 2
       (running_renderer\<lparr>trace := [RenderClient_Write [[0, 0, 0, 0], [1, 0, 1, 0]]],
          m_bufferFilled := True, m_pushedFrames := 2\<rparr>)"
  using Push_write_iteration [of running_renderer speakers roomy_ev 480 478 three_frames 2 0]
  by (simp add: running_renderer_def stopped_renderer_def speakers_def pcm_48k_stereo_16_def
      roomy_ev_def three_frames_def GetFrameSize_def GetFrameCount_def)

text \<open>
  The scenario \<open>SetFormat\<close>, \<open>Play(0)\<close>, \<open>Enqueue\<close> of three frames on a healthy
  device: the session is created and started by the \<open>Enqueue\<close>, the three frames are
  written in two iterations, and \<open>m_pushedFrames\<close> is 3.
\<close>

lemma scenario_start:
  "Play 0 (SetFormat (Some pcm_48k_stereo_16) stopped_renderer) =
     Some (stopped_renderer\<lparr>m_state := State_Running,
        trace := [TimingsCorrection_SetFormat (Some pcm_48k_stereo_16), DeviceManager_ReleaseDevice]\<rparr>)"
  by (simp add: Play_def SetFormat_def ClearDevice_def StartDevice_def emit_def Let_def
      stopped_renderer_def)

lemma scenario_try:
  "Enqueue_try streaming_env (stopped_renderer\<lparr>m_state := State_Running,
        trace := [TimingsCorrection_SetFormat (Some pcm_48k_stereo_16), DeviceManager_ReleaseDevice]\<rparr>)
   = Returned three_frames (stopped_renderer\<lparr>m_state := State_Running, m_device := Some speakers,
        trace := [TimingsCorrection_SetFormat (Some pcm_48k_stereo_16), DeviceManager_ReleaseDevice,
                  DeviceManager_CreateDevice, Dsp_Initialize, SlaveClockToAudio 0, AudioClient_Start]\<rparr>)"
  by (simp add: Enqueue_try_def CheckDeviceSettings_def CreateDevice_def InitializeProcessors_def
      StartDevice_def clock_correction_def emit_def Let_def streaming_env_def steady_env_def
      stopped_renderer_def speakers_def)


lemma scenario_push:
  "Push three_frames [roomy_ev, roomy_ev] (stopped_renderer\<lparr>m_state := State_Running, m_device := Some speakers,
        trace := [TimingsCorrection_SetFormat (Some pcm_48k_stereo_16), DeviceManager_ReleaseDevice,
                  DeviceManager_CreateDevice, Dsp_Initialize, SlaveClockToAudio 0, AudioClient_Start]\<rparr>)
    = Returned True streamed_renderer"
  by (simp add: Push_def IsEmpty_def GetFrameCount_def GetFrameSize_def Push_locked_def Let_def
        flush_Wait_def emit_def three_frames_def roomy_ev_def streamed_renderer_def
        stopped_renderer_def speakers_def pcm_48k_stereo_16_def)

lemma scenario:
  "exec muldiv (Call_SetFormat (Some pcm_48k_stereo_16)) stopped_renderer
     = Some (SetFormat (Some pcm_48k_stereo_16) stopped_renderer) \<and>
   exec muldiv (Call_Play 0) (SetFormat (Some pcm_48k_stereo_16) stopped_renderer)
     = Some started_renderer \<and>
   Enqueue streaming_env started_renderer = Returned True streamed_renderer \<and>
   m_pushedFrames streamed_renderer = 3 \<and>
   written (trace streamed_renderer) = frames three_frames"
proof -
  have e: "Enqueue streaming_env started_renderer = Returned True streamed_renderer"
    using scenario_try scenario_push
    by (simp add: Enqueue_def started_renderer_def)
      (simp add: stopped_renderer_def streaming_env_def steady_env_def)
  show ?thesis
    using scenario_start e
    by (simp add: started_renderer_def) (simp add: streamed_renderer_def three_frames_def)
qed

subsection \<open>The state machine's assertions\<close>

text \<open>
  C8, as the code has it. \<open>Play\<close> asserts that the state is not Running: it fails
  the assertion from Running and otherwise leaves the state Running. \<open>Pause\<close> and
  \<open>Stop\<close> assert nothing: from every state they complete and leave the state Paused
  and Stopped. From the state Stopped, \<open>Enqueue\<close> and \<open>Finish\<close> fail their entry
  assertion, and \<open>Push\<close> fails the assertion in its loop when the chunk is not empty.
\<close>

theorem state_machine_assertions:
  "(if m_state s = State_Running
    then exec llMulDiv (Call_Play startTime) s = None
    else (\<exists>s'. exec llMulDiv (Call_Play startTime) s = Some s' \<and> m_state s' = State_Running)) \<and>
   (\<exists>s'. exec llMulDiv Call_Pause s = Some s' \<and> m_state s' = State_Paused) \<and>
   (\<exists>s'. exec llMulDiv Call_Stop s = Some s' \<and> m_state s' = State_Stopped) \<and>
   (m_state s = State_Stopped \<longrightarrow>
      Enqueue e s = AssertionFailed \<and>
      Finish llMulDiv blockUntilEnd fe s = AssertionFailed \<and>
      (\<not> IsEmpty chunk \<longrightarrow> Push chunk (ev # evs) s = AssertionFailed))"
  by (simp add: Play_def StartDevice_def Pause_def Stop_def emit_def Let_def Enqueue_def Finish_def
      Push_def Push_locked_def IsEmpty_def GetFrameCount_def ClearDevice_fields)

theorem state_machine_assertions_witness:
  "m_state stopped_renderer = State_Stopped \<and>
   (\<exists>s'. exec muldiv (Call_Play 0) stopped_renderer = Some s' \<and> m_state s' = State_Running) \<and>
   exec muldiv (Call_Play 0) running_renderer = None \<and>
   Enqueue steady_env stopped_renderer = AssertionFailed \<and>
   Finish muldiv True idle_env stopped_renderer = AssertionFailed \<and>
   Push three_frames [roomy_ev] stopped_renderer = AssertionFailed"
  using state_machine_assertions [of stopped_renderer muldiv 0 steady_env True idle_env three_frames roomy_ev "[]"]
    state_machine_assertions [of running_renderer muldiv 0 steady_env True idle_env three_frames roomy_ev "[]"]
  by (simp add: stopped_renderer_def running_renderer_def IsEmpty_def three_frames_def)


text \<open>
  C8 as stated fails for \<open>Pause\<close>, which has no assertion: called in the state
  Stopped it completes and leaves the state Paused. \<open>Push\<close> with an empty chunk
  returns before its assertion, also in the state Stopped.
\<close>

theorem Pause_and_empty_Push_from_Stopped:
  "m_state stopped_renderer = State_Stopped \<and>
   exec muldiv Call_Pause stopped_renderer = Some (stopped_renderer\<lparr>m_state := State_Paused\<rparr>) \<and>
   Push DspChunk_empty [] stopped_renderer = Returned True stopped_renderer"
  by (simp add: stopped_renderer_def Pause_def Push_def IsEmpty_def DspChunk_empty_def)

subsection \<open>Push delivers the whole chunk\<close>

lemma written_append: "written (xs @ ys) = written xs @ written ys"
  by (induction xs rule: written.induct) simp_all

lemma written_flush_Wait: "written (trace (flush_Wait ms raised s)) = written (trace s)"
  by (simp add: flush_Wait_def emit_def written_append)

lemma Push_locked_healthy:
  assumes "m_device s \<noteq> None" and "no_hardware_error e" and "doneFrames \<le> GetFrameCount chunk"
  shows "Push_locked chunk doneFrames e s = Step_assert \<or>
     (\<exists>n s'. Push_locked chunk doneFrames e s = Step_continue (doneFrames + n) s' \<and>
        m_device s' \<noteq> None \<and> doneFrames + n \<le> GetFrameCount chunk \<and>
        written (trace s') = written (trace s) @ take n (drop doneFrames (frames chunk)))"
proof -
  from assms(1) obtain d where d: "m_device s = Some d" by auto
  from assms(2) obtain bufferFrames bufferPadding where
    b: "pe_GetBufferSize e = Inr bufferFrames" and p: "pe_GetCurrentPadding e = Inr bufferPadding"
    and g: "pe_GetBuffer e = Inr ()" and r: "pe_ReleaseBuffer e = Inr ()"
    by (auto simp: no_hardware_error_def elim!: SUCCEEDED.elims)
  define doFrames where "doFrames = min (bufferFrames - bufferPadding)
                        (word_of_nat (GetFrameCount chunk - doneFrames) :: 32 word)"
  have "doFrames \<le> (word_of_nat (GetFrameCount chunk - doneFrames) :: 32 word)"
    by (simp add: doFrames_def)
  then have "unat doFrames \<le> unat (word_of_nat (GetFrameCount chunk - doneFrames) :: 32 word)"
    by (simp add: word_le_nat_alt)
  also have "\<dots> \<le> GetFrameCount chunk - doneFrames" by (simp add: unat_of_nat)
  finally have le: "doneFrames + unat doFrames \<le> GetFrameCount chunk"
    using assms(3) by simp
  show ?thesis
  proof (cases "m_state s = State_Stopped \<or> (doFrames \<noteq> 0 \<and> unat (GetFrameSize chunk)
           \<noteq> unat (wBitsPerSample (waveFormat d)) div 8 * unat (nChannels (waveFormat d)))")
    case True
    then have "Push_locked chunk doneFrames e s = Step_assert"
      using d b p g r by (auto simp: Push_locked_def Let_def doFrames_def)
    then show ?thesis by simp
  next
    case False
    show ?thesis
    proof (cases "doFrames = 0")
      case True
      with False d b p have "Push_locked chunk doneFrames e s = Step_continue (doneFrames + 0) s"
        by (simp add: Push_locked_def Let_def doFrames_def)
      with assms(1,3) show ?thesis by (intro disjI2 exI [of _ 0] exI [of _ s]) simp
    next
      case nz: False
      let ?s' = "s\<lparr>trace := trace s @ [RenderClient_Write
                                      (take (unat doFrames) (drop doneFrames (frames chunk)))],
                m_bufferFilled := (bufferPadding + doFrames = bufferFrames),
                m_pushedFrames := m_pushedFrames s + unat doFrames\<rparr>"
      from False nz d b p g r have "Push_locked chunk doneFrames e s
          = Step_continue (doneFrames + unat doFrames) ?s'"
        by (simp add: Push_locked_def Let_def doFrames_def emit_def)
      moreover have "m_device ?s' \<noteq> None" using d by simp
      moreover have "written (trace ?s') = written (trace s)
          @ take (unat doFrames) (drop doneFrames (frames chunk))"
        by (simp add: written_append)
      ultimately show ?thesis using le by blast
    qed
  qed
qed

lemma Push_loop_delivers:
  assumes "m_device s \<noteq> None" and "\<forall>e\<in>set evs. no_hardware_error e"
    and "doneFrames \<le> GetFrameCount chunk"
    and "Push_loop chunk doneFrames firstIteration evs s = Returned r s'"
  shows "m_device s' \<noteq> None \<and>
     (if r then written (trace s') = written (trace s) @ drop doneFrames (frames chunk)
      else m_flush s' \<and> trace s' \<noteq> [] \<and> last (trace s') = Flush_Wait 50 \<and>
           (\<exists>k. doneFrames + k < GetFrameCount chunk \<and>
              written (trace s') = written (trace s) @ take k (drop doneFrames (frames chunk))))"
  using assms
proof (induction evs arbitrary: s doneFrames firstIteration)
  case Nil
  then show ?case by (simp add: GetFrameCount_def split: if_splits)
next
  case (Cons e evs)
  show ?case
  proof (cases "doneFrames < GetFrameCount chunk")
    case False
    with Cons.prems show ?thesis by (simp add: GetFrameCount_def)
  next
    case more: True
    define s1 where "s1 = (if \<not> firstIteration then flush_Wait 50 (pe_beginFlush e) s else s)"
    have dev1: "m_device s1 \<noteq> None" and w1: "written (trace s1) = written (trace s)"
      using Cons.prems(1) by (simp_all add: s1_def flush_Wait_fields(1) written_flush_Wait)
    have "Push_loop chunk doneFrames firstIteration (e # evs) s =
        (if \<not> firstIteration \<and> m_flush s1 then Returned False s1
         else case Push_locked chunk doneFrames e s1 of
                Step_assert \<Rightarrow> AssertionFailed
              | Step_break s2 \<Rightarrow> Returned True s2
              | Step_continue doneFrames' s2 \<Rightarrow> Push_loop chunk doneFrames' False evs s2)"
      using more by (simp add: s1_def Let_def)
    with Cons.prems(4) have unfolded:
        "(if \<not> firstIteration \<and> m_flush s1 then Returned False s1
         else case Push_locked chunk doneFrames e s1 of
                Step_assert \<Rightarrow> AssertionFailed
              | Step_break s2 \<Rightarrow> Returned True s2
              | Step_continue doneFrames' s2 \<Rightarrow> Push_loop chunk doneFrames' False evs s2)
         = Returned r s'"
      by simp
    show ?thesis
    proof (cases "\<not> firstIteration \<and> m_flush s1")
      case True
      with unfolded have rs: "r = False" "s' = s1"
        by simp_all
      have tr: "trace s1 \<noteq> [] \<and> last (trace s1) = Flush_Wait 50"
        using True by (simp add: s1_def flush_Wait_fields)
      have fl: "m_flush s1" using True by simp
      have "doneFrames + 0 < GetFrameCount chunk \<and>
          written (trace s1) = written (trace s) @ take 0 (drop doneFrames (frames chunk))"
        using more w1 by simp
      then have ex: "\<exists>k. doneFrames + k < GetFrameCount chunk \<and>
          written (trace s1) = written (trace s) @ take k (drop doneFrames (frames chunk))"
        by (rule exI)
      from dev1 tr fl ex have "m_device s1 \<noteq> None \<and>
         (m_flush s1 \<and> trace s1 \<noteq> [] \<and> last (trace s1) = Flush_Wait 50 \<and>
           (\<exists>k. doneFrames + k < GetFrameCount chunk \<and>
              written (trace s1) = written (trace s) @ take k (drop doneFrames (frames chunk))))"
        by blast
      then show ?thesis unfolding rs by simp
    next
      case nf: False
      with unfolded have after_wait:
        "(case Push_locked chunk doneFrames e s1 of
                Step_assert \<Rightarrow> AssertionFailed
              | Step_break s2 \<Rightarrow> Returned True s2
              | Step_continue doneFrames' s2 \<Rightarrow> Push_loop chunk doneFrames' False evs s2)
         = Returned r s'"
        by (auto split: if_splits)
      from Push_locked_healthy [OF dev1 _ Cons.prems(3), of e] Cons.prems(2)
      consider "Push_locked chunk doneFrames e s1 = Step_assert"
        | n s2 where "Push_locked chunk doneFrames e s1 = Step_continue (doneFrames + n) s2"
          "m_device s2 \<noteq> None" "doneFrames + n \<le> GetFrameCount chunk"
          "written (trace s2) = written (trace s1) @ take n (drop doneFrames (frames chunk))"
        by auto
      then show ?thesis
      proof cases
        case 1
        with after_wait show ?thesis by simp
      next
        case 2
        with after_wait
        have run: "Push_loop chunk (doneFrames + n) False evs s2 = Returned r s'"
          by simp
        from Cons.prems(2) have evs: "\<forall>e\<in>set evs. no_hardware_error e" by simp
        note ih = Cons.IH [OF 2(2) evs 2(3) run]
        have t: "take n (drop doneFrames (frames chunk)) @ drop (doneFrames + n) (frames chunk)
            = drop doneFrames (frames chunk)"
          by (metis add.commute append_take_drop_id drop_drop)
        have k: "take n (drop doneFrames (frames chunk)) @ take k (drop (doneFrames + n) (frames chunk))
            = take (n + k) (drop doneFrames (frames chunk))" for k
          by (metis add.commute drop_drop take_add)
        show ?thesis
        proof (cases r)
          case True
          with ih 2(4) w1 t show ?thesis by simp
        next
          case False
          with ih obtain k where kk: "doneFrames + n + k < GetFrameCount chunk"
            "written (trace s') = written (trace s2) @ take k (drop (doneFrames + n) (frames chunk))"
            by auto
          have "doneFrames + (n + k) < GetFrameCount chunk \<and>
              written (trace s') = written (trace s) @ take (n + k) (drop doneFrames (frames chunk))"
            using kk 2(4) w1 k [of k] by (simp add: add.assoc)
          with ih False show ?thesis by auto
        qed
      qed
    qed
  qed
qed

text \<open>
  C2. When a device session exists at the call and no device call fails in any
  iteration: if \<open>Push\<close> returns true, the frames written to the device during the
  call are exactly the frames of the chunk, in order, and the session still exists;
  if it returns false, it does so right after a 50 ms wait on the flush event, with
  the flush event signalled, and what was written is a proper prefix of the chunk.
\<close>

theorem Push_delivers_or_flushed:
  assumes "m_device s \<noteq> None" and "\<forall>e\<in>set evs. no_hardware_error e"
    and "Push chunk evs s = Returned r s'"
  shows "m_device s' \<noteq> None \<and>
     (if r then written (trace s') = written (trace s) @ frames chunk
      else m_flush s' \<and> trace s' \<noteq> [] \<and> last (trace s') = Flush_Wait 50 \<and>
           (\<exists>k. k < GetFrameCount chunk \<and>
              written (trace s') = written (trace s) @ take k (frames chunk)))"
proof (cases "IsEmpty chunk")
  case True
  with assms show ?thesis by (simp add: Push_def IsEmpty_def)
next
  case False
  with assms(3) have "Push_loop chunk 0 True evs s = Returned r s'"
    by (simp add: Push_def)
  from Push_loop_delivers [OF assms(1,2) _ this] show ?thesis by (cases r) auto
qed

theorem Push_delivers_or_flushed_witness:
  "m_device running_renderer \<noteq> None \<and> no_hardware_error roomy_ev \<and> no_hardware_error flushing_ev \<and>
   Push three_frames [roomy_ev, roomy_ev] running_renderer =
     Returned True (running_renderer\<lparr>trace := [RenderClient_Write [[0, 0, 0, 0], [1, 0, 1, 0]],
          Flush_Wait 50, RenderClient_Write [[2, 0, 2, 0]]],
        m_bufferFilled := False, m_pushedFrames := 3\<rparr>) \<and>
   written [RenderClient_Write [[0, 0, 0, 0], [1, 0, 1, 0]],
          Flush_Wait 50, RenderClient_Write [[2, 0, 2, 0]]] = frames three_frames \<and>
   Push three_frames [roomy_ev, flushing_ev] running_renderer =
     Returned False (running_renderer\<lparr>trace := [RenderClient_Write [[0, 0, 0, 0], [1, 0, 1, 0]],
          Flush_Wait 50], m_flush := True, m_bufferFilled := True, m_pushedFrames := 2\<rparr>)"
proof -
  let ?done = "running_renderer\<lparr>trace := [RenderClient_Write [[0, 0, 0, 0], [1, 0, 1, 0]],
          Flush_Wait 50, RenderClient_Write [[2, 0, 2, 0]]],
        m_bufferFilled := False, m_pushedFrames := 3\<rparr>"
  have d: "m_device running_renderer \<noteq> None"
    by (simp add: running_renderer_def)
  have h: "no_hardware_error roomy_ev" "no_hardware_error flushing_ev"
    by (simp_all add: no_hardware_error_def roomy_ev_def flushing_ev_def)
  then have hs: "\<forall>e\<in>set [roomy_ev, roomy_ev]. no_hardware_error e" by simp
  have run: "Push three_frames [roomy_ev, roomy_ev] running_renderer = Returned True ?done"
    by (simp add: Push_def IsEmpty_def GetFrameCount_def GetFrameSize_def Push_locked_def Let_def
        flush_Wait_def emit_def three_frames_def roomy_ev_def running_renderer_def
        stopped_renderer_def speakers_def pcm_48k_stereo_16_def)
  have flushed: "Push three_frames [roomy_ev, flushing_ev] running_renderer =
     Returned False (running_renderer\<lparr>trace := [RenderClient_Write [[0, 0, 0, 0], [1, 0, 1, 0]],
          Flush_Wait 50], m_flush := True, m_bufferFilled := True, m_pushedFrames := 2\<rparr>)"
    by (simp add: Push_def IsEmpty_def GetFrameCount_def GetFrameSize_def Push_locked_def Let_def
        flush_Wait_def emit_def three_frames_def roomy_ev_def flushing_ev_def running_renderer_def
        stopped_renderer_def speakers_def pcm_48k_stereo_16_def)
  from Push_delivers_or_flushed [OF d hs run]
  have "written (trace ?done) = written (trace running_renderer) @ frames three_frames"
    by simp
  then have w: "written [RenderClient_Write [[0, 0, 0, 0], [1, 0, 1, 0]],
          Flush_Wait 50, RenderClient_Write [[2, 0, 2, 0]]] = frames three_frames"
    by (simp add: running_renderer_def stopped_renderer_def)
  from d h run flushed w show ?thesis by blast
qed

subsection \<open>No device session, no pushed frames\<close>


lemma pushed_inv_flush_Wait [simp]: "pushed_inv (flush_Wait ms raised s) = pushed_inv s"
  by (simp add: pushed_inv_def flush_Wait_fields)

lemma pushed_inv_emit [simp]: "pushed_inv (emit x s) = pushed_inv s"
  by (simp add: pushed_inv_def emit_def)























subsection \<open>The drain wait of Finish\<close>

lemma stalled_step:
  "m_device s = Some speakers \<Longrightarrow> m_pushedFrames s = 48000 \<Longrightarrow>
     doBlock_locked muldiv stalled_ev s = Block_wait 500 s \<and>
     doBlock_locked muldiv stalled_flush_ev s = Block_wait 500 s"
  by (simp add: stalled_ev_def stalled_flush_ev_def doBlock_locked_def
      Let_def muldiv_def OneSecond_def INT64_MAX_def tdiv_def to_int32_def
      speakers_def pcm_48k_stereo_16_def)

lemma half_played_fields:
  "m_device half_played = Some speakers" "m_pushedFrames half_played = 48000"
  "m_state half_played = State_Running" "m_flush half_played = False" "trace half_played = []"
  by (simp_all add: half_played_def running_renderer_def stopped_renderer_def)

lemma stalled_flags:
  "be_beginFlush stalled_ev = False" "be_beginFlush stalled_flush_ev = True"
  "be_GetPosition stalled_ev = Inr 24000"
  by (simp_all add: stalled_ev_def stalled_flush_ev_def)

text \<open>
  C1 says that the drain wait returns completed when two consecutive position
  readings are equal while Running. The code does not: with one second pushed and the
  device clock standing at half a second in every reading, each check ends in a sleep
  of 500 ms; three equal readings leave the call waiting, and a flush during the third
  sleep makes it return incomplete.
\<close>

theorem doBlock_misses_stall:
  "m_state half_played = State_Running \<and>
   be_GetPosition stalled_ev = Inr 24000 \<and>
   doBlock_locked muldiv stalled_ev half_played = Block_wait 500 half_played \<and>
   doBlock muldiv [stalled_ev, stalled_ev, stalled_ev] half_played
     = Pending (half_played\<lparr>trace := [UnslaveClockFromAudio, Flush_Wait 500, Flush_Wait 500,
                                         Flush_Wait 500]\<rparr>) \<and>
   doBlock muldiv [stalled_ev, stalled_ev, stalled_flush_ev] half_played
     = Returned False (half_played\<lparr>trace := [UnslaveClockFromAudio, Flush_Wait 500, Flush_Wait 500,
                                         Flush_Wait 500], m_flush := True\<rparr>)"
  by (simp add: half_played_fields stalled_step stalled_flags doBlock_def flush_Wait_def emit_def
      Let_def)

text \<open>
  One check of the drain wait, for a session whose clock answers: it returns completed
  when the converted position equals the converted pushed-frame total, and when the
  converted position is \<open>INT64_MAX\<close> while Running; otherwise it sleeps on the flush
  event for the estimated remaining milliseconds, at least 1, and returns incomplete
  when the flush event is signalled by the end of the sleep.
\<close>

lemma doBlock_iteration:
  assumes "m_device s = Some d"
    and "be_GetFrequency e = Inr deviceClockFrequency"
    and "be_GetPosition e = Inr deviceClockPosition"
    and "actual = llMulDiv (sint deviceClockPosition) OneSecond (sint deviceClockFrequency) 0"
    and "target = llMulDiv (int (m_pushedFrames s)) OneSecond
                    (uint (nSamplesPerSec (waveFormat d))) 0"
    and "ms = max 1 (to_int32 (tdiv ((target - actual) * 1000) OneSecond))"
  shows "doBlock_loop llMulDiv (e # evs) s =
     (if actual = target then Returned True s
      else if actual = INT64_MAX \<and> m_state s = State_Running then Returned True s
      else if m_flush s \<or> be_beginFlush e
           then Returned False (s\<lparr>trace := trace s @ [Flush_Wait ms], m_flush := True\<rparr>)
           else doBlock_loop llMulDiv evs (s\<lparr>trace := trace s @ [Flush_Wait ms]\<rparr>)) \<and>
     1 \<le> ms"
  using assms
  by (auto simp: doBlock_locked_def Let_def flush_Wait_def emit_def)

lemma doBlock_iteration_witness:
  "doBlock_loop muldiv [drained_ev] half_played = Returned True half_played \<and>
   doBlock_loop muldiv [stalled_flush_ev] half_played
     = Returned False (half_played\<lparr>trace := [Flush_Wait 500], m_flush := True\<rparr>) \<and>
   (1 :: int) \<le> 500"
proof -
  have d: "m_device half_played = Some speakers" by (rule half_played_fields)
  have a: "(10000000 :: int) = muldiv (sint (48000 :: 64 word)) OneSecond (sint (48000 :: 64 word)) 0"
    and b: "(5000000 :: int) = muldiv (sint (24000 :: 64 word)) OneSecond (sint (48000 :: 64 word)) 0"
    and c: "(10000000 :: int) = muldiv (int (m_pushedFrames half_played)) OneSecond
                    (uint (nSamplesPerSec (waveFormat speakers))) 0"
    and m1: "(1 :: int) = max 1 (to_int32 (tdiv ((10000000 - 10000000) * 1000) OneSecond))"
    and m2: "(500 :: int) = max 1 (to_int32 (tdiv ((10000000 - 5000000) * 1000) OneSecond))"
    by (simp_all add: muldiv_def OneSecond_def half_played_fields speakers_def
        pcm_48k_stereo_16_def tdiv_def to_int32_def)
  have f1: "be_GetFrequency drained_ev = Inr 48000" "be_GetPosition drained_ev = Inr 48000"
    and f2: "be_GetFrequency stalled_flush_ev = Inr 48000" "be_GetPosition stalled_flush_ev = Inr 24000"
    by (simp_all add: drained_ev_def stalled_flush_ev_def stalled_ev_def)
  from doBlock_iteration [where s = half_played and d = speakers and e = drained_ev
      and deviceClockFrequency = 48000 and deviceClockPosition = 48000 and actual = 10000000
      and llMulDiv = muldiv and target = 10000000 and ms = 1 and evs = "[]", OF d f1 a c m1]
  have r1: "doBlock_loop muldiv [drained_ev] half_played = Returned True half_played"
    by (simp del: doBlock_loop.simps)
  from doBlock_iteration [where s = half_played and d = speakers and e = stalled_flush_ev
      and deviceClockFrequency = 48000 and deviceClockPosition = 24000 and actual = 5000000
      and llMulDiv = muldiv and target = 10000000 and ms = 500 and evs = "[]", OF d f2 b c m2]
  have r2: "doBlock_loop muldiv [stalled_flush_ev] half_played
     = Returned False (half_played\<lparr>trace := [Flush_Wait 500], m_flush := True\<rparr>)"
    by (simp add: stalled_flags half_played_fields INT64_MAX_def del: doBlock_loop.simps)
  from r1 r2 show ?thesis by simp
qed

end
